theory Spec2Isabelle
  imports Complex_Main
begin

section \<open>JavaScript values used by the form engine\<close>

text \<open>
  The engine is TypeScript; the model keeps the run-time behaviour of the JavaScript
  it compiles to. Three conventions hold throughout.
  \<^item> A JavaScript number is \<open>NaN\<close>, an infinity or a rational. Addition and the reading
    of a numeric string round to the nearest IEEE double, ties to even, and overflow to an
    infinity (\<open>toDouble\<close>); \<open>-0\<close> is not told apart from \<open>0\<close>.
  \<^item> A string is a list of \<^typ>\<open>char\<close>; a \<^typ>\<open>char\<close> stands for a UTF-16 code unit
    below 256.
  \<^item> What the host decides (how a number or a \<open>Date\<close> prints, its time zone and its
    clock, how it reads a date string that is not of the form \<open>YYYY-MM-DD\<close>) is a
    parameter, the record \<open>host\<close> below. A theorem with a variable \<open>h\<close> holds for every
    host.
\<close>

datatype jsnum = NaN | NegInf | Fin rat | PosInf

text \<open>A \<open>Date\<close> object holds a time value, the milliseconds since 1 January 1970 UTC;
  \<open>None\<close> is the Invalid Date.\<close>

type_synonym jsdate = "int option"

text \<open>\<open>FieldValue = string | number | boolean | string[] | Date | null\<close>, and
  \<open>undefined\<close>, which reaches the engine whenever a form-data key is missing.\<close>

datatype FieldValue =
    VString string
  | VNumber jsnum
  | VBoolean bool
  | VArray "string list"
  | VDate jsdate
  | VNull
  | VUndefined

text \<open>The host: \<open>Number.prototype.toString\<close>, \<open>Date.prototype.toString\<close>, what
  \<open>new Date(s)\<close> makes of a string that is not a calendar date \<open>YYYY-MM-DD\<close>, the offset of
  local time from UTC in minutes at a given time value (negative west of Greenwich), and
  the time value of \<open>new Date()\<close>.\<close>

record host =
  numberToString :: "jsnum \<Rightarrow> string"
  dateToString :: "jsdate \<Rightarrow> string"
  dateParseOther :: "string \<Rightarrow> jsdate"
  localOffsetMinutes :: "int \<Rightarrow> int"
  currentTime :: int

subsection \<open>Numbers\<close>

fun js_isNaN :: "jsnum \<Rightarrow> bool" where
  "js_isNaN NaN = True"
| "js_isNaN _ = False"

text \<open>\<open>a < b\<close> on numbers: false as soon as one side is \<open>NaN\<close>.\<close>

fun js_lt :: "jsnum \<Rightarrow> jsnum \<Rightarrow> bool" where
  "js_lt NaN _ = False"
| "js_lt _ NaN = False"
| "js_lt PosInf _ = False"
| "js_lt _ NegInf = False"
| "js_lt NegInf _ = True"
| "js_lt _ PosInf = True"
| "js_lt (Fin a) (Fin b) = (a < b)"

definition js_gt :: "jsnum \<Rightarrow> jsnum \<Rightarrow> bool" where
  "js_gt a b = js_lt b a"

text \<open>The double nearest to a rational. For \<open>a > 0\<close> with \<open>2 ^ e \<le> a < 2 ^ (e + 1)\<close> the
  doubles around \<open>a\<close> are the multiples of \<open>2 ^ (e - 52)\<close>, and of \<open>2 ^ (- 1074)\<close> below
  the normal range; a tie goes to the even multiple; a result of \<open>2 ^ 1024\<close> or more is
  an infinity.\<close>

function bitlen :: "int \<Rightarrow> int" where
  "bitlen n = (if n \<le> 0 then 0 else 1 + bitlen (n div 2))"
  by pat_completeness auto
termination
  by (relation "measure nat") auto

declare bitlen.simps [simp del]

text \<open>\<open>b\<close> to the \<open>k\<close>, by repeated squaring; \<open>1\<close> for \<open>k \<le> 0\<close>.\<close>

function ipow :: "rat \<Rightarrow> int \<Rightarrow> rat" where
  "ipow b k =
     (if k \<le> 0 then 1
      else if k mod 2 = 0 then ipow (b * b) (k div 2)
      else b * ipow (b * b) (k div 2))"
  by pat_completeness auto
termination
  by (relation "measure (\<lambda>(b, k). nat k)") auto

declare ipow.simps [simp del]

definition pow2 :: "int \<Rightarrow> rat" where
  "pow2 k = (if 0 \<le> k then ipow 2 k else 1 / ipow 2 (- k))"

definition floor_log2 :: "rat \<Rightarrow> int" where
  "floor_log2 a =
     (let (p, q) = quotient_of a;
          k = bitlen p - bitlen q
      in if pow2 k \<le> a then k else k - 1)"

definition round_half_even :: "rat \<Rightarrow> int" where
  "round_half_even x =
     (let f = \<lfloor>x\<rfloor>; d = x - of_int f
      in if d < 1 / 2 then f
         else if 1 / 2 < d then f + 1
         else if even f then f else f + 1)"

definition toDouble :: "rat \<Rightarrow> jsnum" where
  "toDouble r =
     (if r = 0 then Fin 0
      else
        let a = \<bar>r\<bar>;
            e = max (floor_log2 a) (- 1022)
        in if 1024 \<le> e then (if r < 0 then NegInf else PosInf)
           else
             let q = pow2 (e - 52);
                 m = round_half_even (a / q)
             in if e = 1023 \<and> 9007199254740992 \<le> m
                then (if r < 0 then NegInf else PosInf)
                else Fin (if r < 0 then - (of_int m * q) else of_int m * q))"

text \<open>\<open>a + b\<close>: the exact sum of two finite numbers, rounded.\<close>

fun js_add :: "jsnum \<Rightarrow> jsnum \<Rightarrow> jsnum" where
  "js_add NaN _ = NaN"
| "js_add _ NaN = NaN"
| "js_add PosInf NegInf = NaN"
| "js_add NegInf PosInf = NaN"
| "js_add PosInf _ = PosInf"
| "js_add _ PosInf = PosInf"
| "js_add NegInf _ = NegInf"
| "js_add _ NegInf = NegInf"
| "js_add (Fin a) (Fin b) = toDouble (a + b)"

fun js_neg :: "jsnum \<Rightarrow> jsnum" where
  "js_neg NaN = NaN"
| "js_neg NegInf = PosInf"
| "js_neg PosInf = NegInf"
| "js_neg (Fin a) = Fin (- a)"

text \<open>Truthiness of a number: \<open>0\<close> and \<open>NaN\<close> are falsy.\<close>

fun num_truthy :: "jsnum \<Rightarrow> bool" where
  "num_truthy NaN = False"
| "num_truthy (Fin a) = (a \<noteq> 0)"
| "num_truthy _ = True"

text \<open>\<open>rule.value || 0\<close> for an optional number.\<close>

definition value_or_zero :: "jsnum option \<Rightarrow> jsnum" where
  "value_or_zero v = (case v of None \<Rightarrow> Fin 0 | Some n \<Rightarrow> if num_truthy n then n else Fin 0)"

subsection \<open>Characters and strings\<close>

text \<open>White space of \<open>String.prototype.trim\<close>, of \<open>\s\<close> and of the numeric-string
  grammar, among the code units below 256: TAB, LF, VT, FF, CR, SP and NBSP.\<close>

definition is_space :: "char \<Rightarrow> bool" where
  "is_space c = (of_char c \<in> {9, 10, 11, 12, 13, 32, 160 :: nat})"

text \<open>Line terminators, which the regular-expression dot does not match.\<close>

definition is_line_terminator :: "char \<Rightarrow> bool" where
  "is_line_terminator c = (of_char c \<in> {10, 13 :: nat})"

definition is_digit :: "char \<Rightarrow> bool" where
  "is_digit c = (48 \<le> (of_char c :: nat) \<and> (of_char c :: nat) \<le> 57)"

definition is_lower :: "char \<Rightarrow> bool" where
  "is_lower c = (97 \<le> (of_char c :: nat) \<and> (of_char c :: nat) \<le> 122)"

definition trimStart :: "string \<Rightarrow> string" where
  "trimStart s = dropWhile is_space s"

definition trim :: "string \<Rightarrow> string" where
  "trim s = rev (dropWhile is_space (rev (dropWhile is_space s)))"

text \<open>\<open>Array.prototype.join(",")\<close>, which is what \<open>toString\<close> of an array is.\<close>

fun join_comma :: "string list \<Rightarrow> string" where
  "join_comma [] = []"
| "join_comma [x] = x"
| "join_comma (x # y # ys) = x @ '','' @ join_comma (y # ys)"

subsection \<open>Numeric strings: \<open>Number(s)\<close> and \<open>parseFloat(s)\<close>\<close>

definition digit_val :: "char \<Rightarrow> nat" where
  "digit_val c = of_char c - 48"

definition digits_val :: "string \<Rightarrow> int" where
  "digits_val ds = foldl (\<lambda>a c. 10 * a + int (digit_val c)) 0 ds"

text \<open>The value of the digits \<open>ip.fp\<close> times ten to the \<open>e\<close>.\<close>

definition decimal_value :: "string \<Rightarrow> string \<Rightarrow> int \<Rightarrow> rat" where
  "decimal_value ip fp e =
     (let m = of_int (digits_val (ip @ fp)); x = e - int (length fp)
      in if 0 \<le> x then m * ipow 10 x else m / ipow 10 (- x))"

text \<open>An optional \<open>ExponentPart\<close>: the exponent and the rest of the input; when no
  well-formed exponent starts here nothing is consumed.\<close>

definition exponent_part :: "string \<Rightarrow> int \<times> string" where
  "exponent_part s =
     (case s of
        [] \<Rightarrow> (0, s)
      | c # r \<Rightarrow>
          if c = CHR ''e'' \<or> c = CHR ''E'' then
            (let (sg, r') =
                   (case r of
                      [] \<Rightarrow> (1, r)
                    | d # r2 \<Rightarrow>
                        if d = CHR ''+'' then (1, r2)
                        else if d = CHR ''-'' then (- 1, r2)
                        else (1, r));
                 ds = takeWhile is_digit r'
             in if ds = [] then (0, s)
                else (sg * digits_val ds, dropWhile is_digit r'))
          else (0, s))"

text \<open>The longest prefix that is a \<open>StrUnsignedDecimalLiteral\<close>, with its value, rounded
  to a double, and the rest of the input.\<close>

definition str_unsigned_decimal :: "string \<Rightarrow> (jsnum \<times> string) option" where
  "str_unsigned_decimal s =
     (if take 8 s = ''Infinity'' then Some (PosInf, drop 8 s)
      else
        let ip = takeWhile is_digit s; r1 = dropWhile is_digit s
        in case r1 of
             [] \<Rightarrow> if ip = [] then None else Some (toDouble (decimal_value ip [] 0), [])
           | c # r2 \<Rightarrow>
               if c = CHR ''.'' then
                 (let fp = takeWhile is_digit r2; r3 = dropWhile is_digit r2
                  in if ip = [] \<and> fp = [] then None
                     else (let (e, r4) = exponent_part r3
                           in Some (toDouble (decimal_value ip fp e), r4)))
               else if ip = [] then None
               else (let (e, r4) = exponent_part r1
                     in Some (toDouble (decimal_value ip [] e), r4)))"

definition str_decimal :: "string \<Rightarrow> (jsnum \<times> string) option" where
  "str_decimal s =
     (case s of
        [] \<Rightarrow> None
      | c # r \<Rightarrow>
          if c = CHR ''+'' then str_unsigned_decimal r
          else if c = CHR ''-'' then
            map_option (\<lambda>(n, rest). (js_neg n, rest)) (str_unsigned_decimal r)
          else str_unsigned_decimal s)"

text \<open>\<open>0x\<close>, \<open>0o\<close> and \<open>0b\<close> literals: the radix of the prefix, and the value of a
  digit in that radix.\<close>

definition radix_digit :: "nat \<Rightarrow> char \<Rightarrow> nat option" where
  "radix_digit b c =
     (let n = (of_char c :: nat);
          v = (if 48 \<le> n \<and> n \<le> 57 then Some (n - 48)
               else if 97 \<le> n \<and> n \<le> 102 then Some (n - 87)
               else if 65 \<le> n \<and> n \<le> 70 then Some (n - 55)
               else None)
      in case v of None \<Rightarrow> None | Some d \<Rightarrow> if d < b then Some d else None)"

definition radix_prefix :: "string \<Rightarrow> (nat \<times> string) option" where
  "radix_prefix s =
     (case s of
        z # p # r \<Rightarrow>
          if z \<noteq> CHR ''0'' then None
          else if p = CHR ''x'' \<or> p = CHR ''X'' then Some (16, r)
          else if p = CHR ''o'' \<or> p = CHR ''O'' then Some (8, r)
          else if p = CHR ''b'' \<or> p = CHR ''B'' then Some (2, r)
          else None
      | _ \<Rightarrow> None)"

definition radix_value :: "nat \<Rightarrow> string \<Rightarrow> jsnum" where
  "radix_value b ds =
     (if ds \<noteq> [] \<and> list_all (\<lambda>c. radix_digit b c \<noteq> None) ds
      then toDouble
             (of_int (foldl (\<lambda>a c. int b * a +
                                    (case radix_digit b c of Some d \<Rightarrow> int d | None \<Rightarrow> 0)) 0 ds))
      else NaN)"

text \<open>\<open>Number(s)\<close> on a string: the whole trimmed string must be a numeric literal; the
  empty string is \<open>0\<close>.\<close>

definition StringToNumber :: "string \<Rightarrow> jsnum" where
  "StringToNumber s =
     (let t = trim s
      in if t = [] then Fin 0
         else case radix_prefix t of
                Some (b, ds) \<Rightarrow> radix_value b ds
              | None \<Rightarrow>
                  (case str_decimal t of
                     Some (n, rest) \<Rightarrow> if rest = [] then n else NaN
                   | None \<Rightarrow> NaN))"

text \<open>\<open>parseFloat(s)\<close>: the longest decimal literal after leading white space.\<close>

definition parseFloat :: "string \<Rightarrow> jsnum" where
  "parseFloat s = (case str_decimal (trimStart s) of Some (n, rest) \<Rightarrow> n | None \<Rightarrow> NaN)"

text \<open>\<open>parseInt(s)\<close> with no radix: an optional sign, an optional \<open>0x\<close>, and the longest
  run of digits; what follows is ignored.\<close>

definition parseInt :: "string \<Rightarrow> jsnum" where
  "parseInt s =
     (let t = trimStart s;
          (sg, r) =
            (case t of
               [] \<Rightarrow> (1, t)
             | c # r \<Rightarrow>
                 if c = CHR ''-'' then (- 1, r)
                 else if c = CHR ''+'' then (1, r)
                 else (1, t));
          (b, ds) = (if take 2 r = ''0x'' \<or> take 2 r = ''0X'' then (16, drop 2 r) else (10, r));
          z = takeWhile (\<lambda>c. radix_digit b c \<noteq> None) ds
      in if z = [] then NaN
         else toDouble
                (of_int (sg * foldl (\<lambda>a c. int b * a +
                                           (case radix_digit b c of Some d \<Rightarrow> int d | None \<Rightarrow> 0))
                                0 z)))"

subsection \<open>Conversions of a field value\<close>

text \<open>\<open>value?.toString()\<close>: \<open>None\<close> for \<open>null\<close> and \<open>undefined\<close>.\<close>

definition toString_opt :: "host \<Rightarrow> FieldValue \<Rightarrow> string option" where
  "toString_opt h v =
     (case v of
        VString s \<Rightarrow> Some s
      | VNumber n \<Rightarrow> Some (numberToString h n)
      | VBoolean b \<Rightarrow> Some (if b then ''true'' else ''false'')
      | VArray xs \<Rightarrow> Some (join_comma xs)
      | VDate d \<Rightarrow> Some (dateToString h d)
      | VNull \<Rightarrow> None
      | VUndefined \<Rightarrow> None)"

text \<open>\<open>value?.toString() || ''\<close>.\<close>

definition stringValue :: "host \<Rightarrow> FieldValue \<Rightarrow> string" where
  "stringValue h v = (case toString_opt h v of None \<Rightarrow> [] | Some s \<Rightarrow> s)"

text \<open>\<open>Number(value)\<close>.\<close>

definition toNumber :: "FieldValue \<Rightarrow> jsnum" where
  "toNumber v =
     (case v of
        VString s \<Rightarrow> StringToNumber s
      | VNumber n \<Rightarrow> n
      | VBoolean b \<Rightarrow> Fin (if b then 1 else 0)
      | VArray xs \<Rightarrow> StringToNumber (join_comma xs)
      | VDate d \<Rightarrow> (case d of None \<Rightarrow> NaN | Some t \<Rightarrow> Fin (of_int t))
      | VNull \<Rightarrow> Fin 0
      | VUndefined \<Rightarrow> NaN)"

text \<open>Truthiness of a value, as \<open>||\<close> and \<open>if\<close> test it.\<close>

definition truthy :: "FieldValue \<Rightarrow> bool" where
  "truthy v =
     (case v of
        VString s \<Rightarrow> s \<noteq> []
      | VNumber n \<Rightarrow> num_truthy n
      | VBoolean b \<Rightarrow> b
      | VArray xs \<Rightarrow> True
      | VDate d \<Rightarrow> True
      | VNull \<Rightarrow> False
      | VUndefined \<Rightarrow> False)"

subsection \<open>Dates\<close>

text \<open>Days since 1 January 1970 of a date of the proleptic Gregorian calendar, and back.
  Years are counted from March, in eras of 400 years (146097 days).\<close>

definition daysFromCivil :: "int \<Rightarrow> int \<Rightarrow> int \<Rightarrow> int" where
  "daysFromCivil y m d =
     (let y' = (if m \<le> 2 then y - 1 else y);
          era = y' div 400;
          yoe = y' - era * 400;
          mp = (if 2 < m then m - 3 else m + 9);
          doy = (153 * mp + 2) div 5 + d - 1;
          doe = yoe * 365 + yoe div 4 - yoe div 100 + doy
      in era * 146097 + doe - 719468)"

definition civilFromDays :: "int \<Rightarrow> int \<times> int \<times> int" where
  "civilFromDays z =
     (let z' = z + 719468;
          era = z' div 146097;
          doe = z' - era * 146097;
          yoe = (doe - doe div 1460 + doe div 36524 - doe div 146096) div 365;
          doy = doe - (365 * yoe + yoe div 4 - yoe div 100);
          mp = (5 * doy + 2) div 153;
          d = doy - (153 * mp + 2) div 5 + 1;
          m = (if mp < 10 then mp + 3 else mp - 9);
          y = yoe + era * 400
      in (if m \<le> 2 then y + 1 else y, m, d))"

definition daysInMonth :: "int \<Rightarrow> int \<Rightarrow> int" where
  "daysInMonth y m =
     (if m = 2 then (if y mod 4 = 0 \<and> (y mod 100 \<noteq> 0 \<or> y mod 400 = 0) then 29 else 28)
      else if m = 4 \<or> m = 6 \<or> m = 9 \<or> m = 11 then 30 else 31)"

text \<open>\<open>new Date(s)\<close> on a calendar date \<open>YYYY-MM-DD\<close>, which is what a date input
  yields: midnight UTC of that day. \<open>None\<close> when \<open>s\<close> is not such a date.\<close>

definition parseDateOnly :: "string \<Rightarrow> int option" where
  "parseDateOnly s =
     (if length s = 10 \<and> s ! 4 = CHR ''-'' \<and> s ! 7 = CHR ''-'' \<and>
         list_all is_digit (take 4 s @ take 2 (drop 5 s) @ drop 8 s)
      then
        (let y = digits_val (take 4 s);
             m = digits_val (take 2 (drop 5 s));
             d = digits_val (drop 8 s)
         in if 1 \<le> m \<and> m \<le> 12 \<and> 1 \<le> d \<and> d \<le> daysInMonth y m
            then Some (daysFromCivil y m d * 86400000) else None)
      else None)"

text \<open>\<open>new Date(s)\<close>: any other string is for the host.\<close>

definition newDate :: "host \<Rightarrow> string \<Rightarrow> jsdate" where
  "newDate h s = (case parseDateOnly s of Some t \<Rightarrow> Some t | None \<Rightarrow> dateParseOther h s)"

text \<open>The getters read the time value in local time.\<close>

definition localDay :: "host \<Rightarrow> int \<Rightarrow> int" where
  "localDay h t = (t + localOffsetMinutes h t * 60000) div 86400000"

definition getFullYear :: "host \<Rightarrow> int \<Rightarrow> int" where
  "getFullYear h t = (case civilFromDays (localDay h t) of (y, m, d) \<Rightarrow> y)"

definition getMonth :: "host \<Rightarrow> int \<Rightarrow> int" where
  "getMonth h t = (case civilFromDays (localDay h t) of (y, m, d) \<Rightarrow> m - 1)"

definition getDate :: "host \<Rightarrow> int \<Rightarrow> int" where
  "getDate h t = (case civilFromDays (localDay h t) of (y, m, d) \<Rightarrow> d)"

section \<open>Schema model (\<open>types/index.ts\<close>)\<close>

datatype FieldType = FText | FNumber | FTextarea | FSelect | FRadio | FCheckbox | FDate

datatype ValidationRuleType = NotEmpty | MinLength | MaxLength | Email | Password

record ValidationRule =
  rule_type :: ValidationRuleType
  rule_value :: "jsnum option"
  message :: string

record DerivedFieldConfig =
  parentFieldIds :: "string list"
  formula :: string

record FormField =
  field_id :: string
  field_type :: FieldType
  label :: string
  required :: bool
  defaultValue :: FieldValue
  validationRules :: "ValidationRule list"
  options :: "string list option"
  isDerived :: bool
  derivedConfig :: "DerivedFieldConfig option"


section \<open>Validation rule engine (\<open>utils/validation.ts\<close>)\<close>

definition getAvailableValidationRules :: "FieldType \<Rightarrow> ValidationRuleType list" where
  "getAvailableValidationRules fieldType =
     (let baseRules = [NotEmpty]
      in case fieldType of
           FText \<Rightarrow> baseRules @ [MinLength, MaxLength, Email, Password]
         | FTextarea \<Rightarrow> baseRules @ [MinLength, MaxLength, Email, Password]
         | FNumber \<Rightarrow> baseRules @ [MinLength, MaxLength]
         | FSelect \<Rightarrow> baseRules
         | FRadio \<Rightarrow> baseRules
         | FCheckbox \<Rightarrow> baseRules
         | FDate \<Rightarrow> baseRules)"

text \<open>\<open>/^[^\s@]+@[^\s@]+\.[^\s@]+$/\<close>: the string is \<open>A @ B . C\<close> with \<open>A\<close>, \<open>B\<close>, \<open>C\<close>
  non-empty runs of characters that are neither white space nor \<open>@\<close>. The test tries
  every position \<open>i\<close> of the \<open>@\<close> and \<open>j\<close> of the dot.\<close>

definition plain_char :: "char \<Rightarrow> bool" where
  "plain_char c = (\<not> is_space c \<and> c \<noteq> CHR ''@'')"

definition plain_run :: "string \<Rightarrow> bool" where
  "plain_run s = (s \<noteq> [] \<and> list_all plain_char s)"

definition emailRegex_test :: "string \<Rightarrow> bool" where
  "emailRegex_test s =
     list_ex (\<lambda>i. list_ex (\<lambda>j.
        i < j \<and> s ! i = CHR ''@'' \<and> s ! j = CHR ''.'' \<and>
        plain_run (take i s) \<and> plain_run (take (j - Suc i) (drop (Suc i) s)) \<and>
        plain_run (drop (Suc j) s)) [0..<length s]) [0..<length s]"

text \<open>\<open>/^(?=.*\d)(?=.*[a-z]).{8,}$/\<close>: both look-aheads start at position 0 and
  reach only as far as the first line terminator; the body needs at least eight
  characters and no line terminator up to the end of the input.\<close>

definition passwordRegex_test :: "string \<Rightarrow> bool" where
  "passwordRegex_test s =
     (let line = takeWhile (\<lambda>c. \<not> is_line_terminator c) s
      in list_ex is_digit line \<and> list_ex is_lower line \<and>
         8 \<le> length s \<and> list_all (\<lambda>c. \<not> is_line_terminator c) s)"

definition validateRule :: "host \<Rightarrow> ValidationRule \<Rightarrow> FieldValue \<Rightarrow> FieldType \<Rightarrow> string option" where
  "validateRule h rule v fieldType =
     (let stringValue = stringValue h v
      in case rule_type rule of
           NotEmpty \<Rightarrow>
             if fieldType = FCheckbox then
               (let arrayValue = (case v of VArray xs \<Rightarrow> xs | _ \<Rightarrow> [])
                in if length arrayValue = 0 then Some (message rule) else None)
             else if trim stringValue = [] then Some (message rule) else None
         | MinLength \<Rightarrow>
             if fieldType = FNumber then
               (let numValue = toNumber v
                in if \<not> js_isNaN numValue \<and> js_lt numValue (value_or_zero (rule_value rule))
                   then Some (message rule) else None)
             else if js_lt (Fin (of_nat (length stringValue))) (value_or_zero (rule_value rule))
                  then Some (message rule) else None
         | MaxLength \<Rightarrow>
             if fieldType = FNumber then
               (let numValue = toNumber v
                in if \<not> js_isNaN numValue \<and> js_gt numValue (value_or_zero (rule_value rule))
                   then Some (message rule) else None)
             else if js_gt (Fin (of_nat (length stringValue))) (value_or_zero (rule_value rule))
                  then Some (message rule) else None
         | Email \<Rightarrow>
             if stringValue \<noteq> [] \<and> \<not> emailRegex_test stringValue
             then Some (message rule) else None
         | Password \<Rightarrow>
             if stringValue \<noteq> [] \<and> \<not> passwordRegex_test stringValue
             then Some (message rule) else None)"

text \<open>The loop of \<open>validateField\<close>. \<open>if (error)\<close> tests truthiness: a \<open>null\<close> and an
  empty string both let the loop go on.\<close>

fun validateRules :: "host \<Rightarrow> ValidationRule list \<Rightarrow> FieldValue \<Rightarrow> FieldType \<Rightarrow> string option" where
  "validateRules h [] v fieldType = None"
| "validateRules h (rule # rest) v fieldType =
     (case validateRule h rule v fieldType of
        None \<Rightarrow> validateRules h rest v fieldType
      | Some error \<Rightarrow> if error \<noteq> [] then Some error else validateRules h rest v fieldType)"

definition validateField :: "host \<Rightarrow> FormField \<Rightarrow> FieldValue \<Rightarrow> string option" where
  "validateField h field v = validateRules h (validationRules field) v (field_type field)"

section \<open>Derived value calculator (\<open>utils/derivedFields.ts\<close>)\<close>

text \<open>\<open>PreviewData\<close>: an object indexed by field id. Reading a key that is not there
  gives \<open>undefined\<close>.\<close>

type_synonym PreviewData = "string \<rightharpoonup> FieldValue"

definition lookup :: "PreviewData \<Rightarrow> string \<Rightarrow> FieldValue" where
  "lookup formData k = (case formData k of None \<Rightarrow> VUndefined | Some v \<Rightarrow> v)"

text \<open>The number one parent adds to the sum: the body of the \<open>reduce\<close> callback
  before the addition.\<close>

definition sumOperand :: "host \<Rightarrow> PreviewData \<Rightarrow> string \<Rightarrow> jsnum" where
  "sumOperand h formData fieldId =
     (let v = lookup formData fieldId;
          numValue =
            (case v of
               VNumber n \<Rightarrow> n
             | _ \<Rightarrow> parseFloat (case toString_opt h v of
                                  None \<Rightarrow> ''0''
                                | Some s \<Rightarrow> if s = [] then ''0'' else s))
      in if js_isNaN numValue then Fin 0 else numValue)"

definition calculateSum :: "host \<Rightarrow> string list \<Rightarrow> PreviewData \<Rightarrow> jsnum" where
  "calculateSum h ids formData =
     foldl (\<lambda>acc fieldId. js_add acc (sumOperand h formData fieldId)) (Fin 0) ids"

definition calculateAge :: "host \<Rightarrow> string \<Rightarrow> PreviewData \<Rightarrow> int" where
  "calculateAge h birthdateFieldId formData =
     (case toString_opt h (lookup formData birthdateFieldId) of
        None \<Rightarrow> 0
      | Some birthdate \<Rightarrow>
          if birthdate = [] then 0
          else (case newDate h birthdate of
                  None \<Rightarrow> 0
                | Some birthDate \<Rightarrow>
                    (let today = currentTime h;
                         age = getFullYear h today - getFullYear h birthDate;
                         monthDiff = getMonth h today - getMonth h birthDate;
                         age' = (if monthDiff < 0 \<or>
                                    (monthDiff = 0 \<and> getDate h today < getDate h birthDate)
                                 then age - 1 else age)
                     in max 0 age')))"

text \<open>\<open>parentFieldIds[0]\<close> used as an object key: on the empty list it is
  \<open>undefined\<close>, which as a key is the string \<open>"undefined"\<close>.\<close>

definition firstParentKey :: "string list \<Rightarrow> string" where
  "firstParentKey ids = (case ids of [] \<Rightarrow> ''undefined'' | x # _ \<Rightarrow> x)"

definition calculateDerivedValue :: "host \<Rightarrow> FormField \<Rightarrow> PreviewData \<Rightarrow> FieldValue" where
  "calculateDerivedValue h field formData =
     (case derivedConfig field of
        None \<Rightarrow> if truthy (defaultValue field) then defaultValue field else VString []
      | Some cfg \<Rightarrow>
          if \<not> isDerived field
          then (if truthy (defaultValue field) then defaultValue field else VString [])
          else if formula cfg = ''sum''
          then VNumber (calculateSum h (parentFieldIds cfg) formData)
          else if formula cfg = ''age_from_birthdate''
          then VNumber (Fin (of_int (calculateAge h (firstParentKey (parentFieldIds cfg)) formData)))
          else VString [])"

section \<open>Field updates and the form-builder store\<close>

text \<open>\<open>Partial<FormField>\<close>: every key may be missing. For the two optional keys a
  present key may also hold \<open>undefined\<close>, which the spread copies.\<close>

record FieldUpdates =
  upd_id :: "string option"
  upd_type :: "FieldType option"
  upd_label :: "string option"
  upd_required :: "bool option"
  upd_defaultValue :: "FieldValue option"
  upd_validationRules :: "ValidationRule list option"
  upd_options :: "string list option option"
  upd_isDerived :: "bool option"
  upd_derivedConfig :: "DerivedFieldConfig option option"

definition noUpdates :: FieldUpdates where
  "noUpdates = \<lparr>upd_id = None, upd_type = None, upd_label = None, upd_required = None,
     upd_defaultValue = None, upd_validationRules = None, upd_options = None,
     upd_isDerived = None, upd_derivedConfig = None\<rparr>"

text \<open>\<open>{ ...field, ...updates }\<close>.\<close>

definition applyUpdates :: "FormField \<Rightarrow> FieldUpdates \<Rightarrow> FormField" where
  "applyUpdates field u =
     \<lparr>field_id = (case upd_id u of None \<Rightarrow> field_id field | Some x \<Rightarrow> x),
      field_type = (case upd_type u of None \<Rightarrow> field_type field | Some x \<Rightarrow> x),
      label = (case upd_label u of None \<Rightarrow> label field | Some x \<Rightarrow> x),
      required = (case upd_required u of None \<Rightarrow> required field | Some x \<Rightarrow> x),
      defaultValue = (case upd_defaultValue u of None \<Rightarrow> defaultValue field | Some x \<Rightarrow> x),
      validationRules =
        (case upd_validationRules u of None \<Rightarrow> validationRules field | Some x \<Rightarrow> x),
      options = (case upd_options u of None \<Rightarrow> options field | Some x \<Rightarrow> x),
      isDerived = (case upd_isDerived u of None \<Rightarrow> isDerived field | Some x \<Rightarrow> x),
      derivedConfig =
        (case upd_derivedConfig u of None \<Rightarrow> derivedConfig field | Some x \<Rightarrow> x)\<rparr>"




section \<open>Consistency maintenance in the editor\<close>

subsection \<open>The field configuration panel\<close>

text \<open>Each handler ends in \<open>handleUpdate(updates)\<close>, which dispatches \<open>updateField\<close> for
  the selected field; the model of a handler is the \<open>updates\<close> object it passes.\<close>

definition hasRequiredRule :: "ValidationRule list \<Rightarrow> bool" where
  "hasRequiredRule rules = list_ex (\<lambda>rule. rule_type rule = NotEmpty) rules"

definition handleRequiredToggle :: "FormField \<Rightarrow> bool \<Rightarrow> FieldUpdates" where
  "handleRequiredToggle field checked =
     (let currentRules = validationRules field;
          newRules =
            (if checked then
               (if hasRequiredRule currentRules then currentRules
                else \<lparr>rule_type = NotEmpty, rule_value = None,
                       message = (if field_type field = FCheckbox
                                  then ''Please select at least one option''
                                  else ''This field is required'')\<rparr> # currentRules)
             else filter (\<lambda>rule. rule_type rule \<noteq> NotEmpty) currentRules)
      in noUpdates\<lparr>upd_required := Some checked, upd_validationRules := Some newRules\<rparr>)"

definition handleValidationRulesChange :: "ValidationRule list \<Rightarrow> FieldUpdates" where
  "handleValidationRulesChange rules =
     noUpdates\<lparr>upd_validationRules := Some rules, upd_required := Some (hasRequiredRule rules)\<rparr>"

definition needsOptionsType :: "FieldType \<Rightarrow> bool" where
  "needsOptionsType t = (t = FSelect \<or> t = FRadio \<or> t = FCheckbox)"

definition handleFieldTypeChange :: "FormField \<Rightarrow> FieldType \<Rightarrow> FieldUpdates" where
  "handleFieldTypeChange field t =
     (let u0 = noUpdates\<lparr>upd_type := Some t\<rparr>;
          u1 = (if \<not> needsOptionsType t then u0\<lparr>upd_options := Some None\<rparr>
                else u0\<lparr>upd_options :=
                          Some (Some (case options field of None \<Rightarrow> [] | Some os \<Rightarrow> os))\<rparr>);
          u2 = (if t = FNumber then u1
                else u1\<lparr>upd_isDerived := Some False, upd_derivedConfig := Some None\<rparr>);
          u3 = (if (field_type field = FCheckbox \<and> t \<noteq> FCheckbox) \<or>
                   (field_type field \<noteq> FCheckbox \<and> t = FCheckbox)
                then u2\<lparr>upd_defaultValue := Some (VString [])\<rparr> else u2)
      in u3)"

text \<open>Dispatching the updates of one event in order.\<close>

definition dispatchAll :: "FormField \<Rightarrow> FieldUpdates list \<Rightarrow> FormField" where
  "dispatchAll field us = foldl applyUpdates field us"

subsection \<open>The validation rules editor\<close>

text \<open>The component receives \<open>rules = field.validationRules\<close>, \<open>fieldType = field.type\<close>,
  \<open>isRequired = field.required\<close>, \<open>onChange = handleValidationRulesChange\<close> and
  \<open>onRequiredChange = handleRequiredToggle\<close>. The model of a callback is the list of
  updates it dispatches, in order.\<close>

definition getDefaultMessage :: "FieldType \<Rightarrow> ValidationRuleType \<Rightarrow> string" where
  "getDefaultMessage fieldType t =
     (case t of
        NotEmpty \<Rightarrow> (if fieldType = FCheckbox then ''Please select at least one option''
                     else ''This field is required'')
      | Email \<Rightarrow> ''Please enter a valid email address''
      | Password \<Rightarrow> ''Password must be at least 8 characters with a number''
      | MinLength \<Rightarrow> (if fieldType = FNumber then ''Value must be at least the minimum''
                      else ''Minimum length required'')
      | MaxLength \<Rightarrow> (if fieldType = FNumber then ''Value must not exceed the maximum''
                      else ''Maximum length exceeded''))"

text \<open>The first effect of the component: a required field with no \<open>notEmpty\<close> rule gets
  one, at the end of the list.\<close>

definition autoAddRequiredEffect :: "FormField \<Rightarrow> FieldUpdates option" where
  "autoAddRequiredEffect field =
     (let rules = validationRules field
      in if required field \<and> \<not> hasRequiredRule rules
         then Some (handleValidationRulesChange
                      (rules @ [\<lparr>rule_type = NotEmpty, rule_value = None,
                                 message = getDefaultMessage (field_type field) NotEmpty\<rparr>]))
         else None)"

text \<open>The rule types of the field type that no rule of the list has yet.\<close>

definition availableForAdd :: "FormField \<Rightarrow> ValidationRuleType list" where
  "availableForAdd field =
     filter (\<lambda>t. t \<notin> set (map rule_type (validationRules field)))
       (getAvailableValidationRules (field_type field))"

definition addRule :: "FormField \<Rightarrow> FieldUpdates list" where
  "addRule field =
     (case availableForAdd field of
        [] \<Rightarrow> []
      | ruleType # rest \<Rightarrow>
          [handleValidationRulesChange
             (validationRules field @
                [\<lparr>rule_type = ruleType,
                  rule_value = (if ruleType = MinLength \<or> ruleType = MaxLength
                                then Some (Fin 1) else None),
                  message = getDefaultMessage (field_type field) ruleType\<rparr>])])"

text \<open>\<open>Partial<ValidationRule>\<close>; a present \<open>value\<close> key may hold \<open>undefined\<close>.\<close>

record RulePatch =
  patch_type :: "ValidationRuleType option"
  patch_value :: "jsnum option option"
  patch_message :: "string option"

definition noPatch :: RulePatch where
  "noPatch = \<lparr>patch_type = None, patch_value = None, patch_message = None\<rparr>"

definition applyPatch :: "ValidationRule \<Rightarrow> RulePatch \<Rightarrow> ValidationRule" where
  "applyPatch rule p =
     \<lparr>rule_type = (case patch_type p of None \<Rightarrow> rule_type rule | Some x \<Rightarrow> x),
      rule_value = (case patch_value p of None \<Rightarrow> rule_value rule | Some x \<Rightarrow> x),
      message = (case patch_message p of None \<Rightarrow> message rule | Some x \<Rightarrow> x)\<rparr>"

text \<open>\<open>updateRule\<close> is called by the controls of a row with the index of that row; the
  model covers these indices only, and is \<open>None\<close> past the end of the list.\<close>

definition updateRule :: "FormField \<Rightarrow> nat \<Rightarrow> RulePatch \<Rightarrow> FieldUpdates list option" where
  "updateRule field index updatedRule =
     (let rules = validationRules field
      in if index < length rules
         then Some [handleValidationRulesChange
                      (rules[index := applyPatch (rules ! index) updatedRule])]
         else None)"

definition handleRuleTypeChange ::
  "FormField \<Rightarrow> nat \<Rightarrow> ValidationRuleType \<Rightarrow> FieldUpdates list option" where
  "handleRuleTypeChange field index newType =
     updateRule field index
       \<lparr>patch_type = Some newType,
        patch_value = Some (if newType = MinLength \<or> newType = MaxLength
                            then Some (Fin 1) else None),
        patch_message = Some (getDefaultMessage (field_type field) newType)\<rparr>"

definition handleValueChange :: "FormField \<Rightarrow> nat \<Rightarrow> string \<Rightarrow> FieldUpdates list option" where
  "handleValueChange field index v =
     (if v = [] then updateRule field index (noPatch\<lparr>patch_value := Some (Some (Fin 1))\<rparr>)
      else
        let numValue = parseInt v
        in if \<not> js_isNaN numValue \<and> \<not> js_lt numValue (Fin 1)
           then updateRule field index (noPatch\<lparr>patch_value := Some (Some numValue)\<rparr>)
           else Some [])"

definition handleMessageChange :: "FormField \<Rightarrow> nat \<Rightarrow> string \<Rightarrow> FieldUpdates list option" where
  "handleMessageChange field index m =
     updateRule field index (noPatch\<lparr>patch_message := Some m\<rparr>)"

text \<open>\<open>deleteRule\<close>: reading \<open>ruleToDelete.type\<close> past the end of the list throws, which
  is \<open>None\<close>.\<close>

definition removeAt :: "nat \<Rightarrow> 'a list \<Rightarrow> 'a list" where
  "removeAt index xs = map snd (filter (\<lambda>(i, x). i \<noteq> index) (enumerate 0 xs))"

definition deleteRule :: "FormField \<Rightarrow> nat \<Rightarrow> FieldUpdates list option" where
  "deleteRule field index =
     (let rules = validationRules field
      in if index < length rules then
           (let ruleToDelete = rules ! index;
                newRules = removeAt index rules
            in Some ((if rule_type ruleToDelete = NotEmpty
                      then [handleRequiredToggle field False] else [])
                     @ [handleValidationRulesChange newRules]))
         else None)"

text \<open>\<open>getRelevantRules\<close> compares the field type with the strings \<open>'email'\<close> and
  \<open>'password'\<close> too; no field type has these names.\<close>

definition getRelevantRules :: "FieldType \<Rightarrow> ValidationRule list \<Rightarrow> ValidationRule list" where
  "getRelevantRules fieldType rules =
     filter (\<lambda>rule.
        if rule_type rule = Email \<and> \<not> (fieldType = FText \<or> fieldType = FTextarea) then False
        else if rule_type rule = Password \<and> \<not> (fieldType = FText) then False
        else if (rule_type rule = MinLength \<or> rule_type rule = MaxLength) \<and>
                (fieldType = FCheckbox \<or> fieldType = FRadio \<or> fieldType = FSelect) then False
        else True) rules"

text \<open>The effect that cleans the rules up when the field type changes: it calls
  \<open>onChange\<close> only when a rule was dropped.\<close>

definition cleanupRulesEffect :: "FormField \<Rightarrow> FieldUpdates option" where
  "cleanupRulesEffect field =
     (let rules = validationRules field;
          relevantRules = getRelevantRules (field_type field) rules
      in if length relevantRules \<noteq> length rules
         then Some (handleValidationRulesChange relevantRules) else None)"

text \<open>A type change in the panel followed by that effect.\<close>

definition typeChangeThenCleanup :: "FormField \<Rightarrow> FieldType \<Rightarrow> FormField" where
  "typeChangeThenCleanup field t =
     (let f1 = applyUpdates field (handleFieldTypeChange field t)
      in case cleanupRulesEffect f1 of None \<Rightarrow> f1 | Some u \<Rightarrow> applyUpdates f1 u)"

text \<open>The two effects of the component after a render, in the order of their
  declaration; both read the props of that render.\<close>

definition effectUpdates :: "FormField \<Rightarrow> FieldUpdates list" where
  "effectUpdates field =
     (case autoAddRequiredEffect field of None \<Rightarrow> [] | Some u \<Rightarrow> [u]) @
     (case cleanupRulesEffect field of None \<Rightarrow> [] | Some u \<Rightarrow> [u])"

definition runEffects :: "FormField \<Rightarrow> FormField" where
  "runEffects field = dispatchAll field (effectUpdates field)"

text \<open>The controls of the panel that write \<open>required\<close> or \<open>validationRules\<close>, with what
  the markup lets through: a row exists for each rule of the list; the type menu of a
  row offers the type of the row and the types of \<open>availableForAdd\<close>; the value input
  exists on \<open>minLength\<close> and \<open>maxLength\<close> rows; the delete button of a \<open>notEmpty\<close> row is
  disabled while the field is required.\<close>

datatype EditorAction =
    ToggleRequired bool
  | ChangeFieldType FieldType
  | ClickAddRule
  | SelectRuleType nat ValidationRuleType
  | TypeRuleValue nat string
  | TypeRuleMessage nat string
  | ClickDelete nat

definition deleteDisabled :: "FormField \<Rightarrow> nat \<Rightarrow> bool" where
  "deleteDisabled field index =
     (rule_type (validationRules field ! index) = NotEmpty \<and> required field)"

definition dispatched :: "FieldUpdates list option \<Rightarrow> FieldUpdates list" where
  "dispatched r = (case r of None \<Rightarrow> [] | Some us \<Rightarrow> us)"

definition editorEvent :: "FormField \<Rightarrow> EditorAction \<Rightarrow> FieldUpdates list" where
  "editorEvent field a =
     (let rules = validationRules field
      in case a of
           ToggleRequired checked \<Rightarrow> [handleRequiredToggle field checked]
         | ChangeFieldType t \<Rightarrow> [handleFieldTypeChange field t]
         | ClickAddRule \<Rightarrow> addRule field
         | SelectRuleType index t \<Rightarrow>
             if index < length rules \<and> t \<in> set (availableForAdd field)
             then dispatched (handleRuleTypeChange field index t) else []
         | TypeRuleValue index v \<Rightarrow>
             if index < length rules \<and>
                (rule_type (rules ! index) = MinLength \<or> rule_type (rules ! index) = MaxLength)
             then dispatched (handleValueChange field index v) else []
         | TypeRuleMessage index m \<Rightarrow>
             if index < length rules then dispatched (handleMessageChange field index m) else []
         | ClickDelete index \<Rightarrow>
             if index < length rules \<and> \<not> deleteDisabled field index
             then dispatched (deleteRule field index) else [])"

text \<open>One action and the effects of the render that follows it.\<close>

definition editorStep :: "FormField \<Rightarrow> EditorAction \<Rightarrow> FormField" where
  "editorStep field a = runEffects (dispatchAll field (editorEvent field a))"

subsection \<open>Derived fields after a deletion (\<open>pages/createPage.tsx\<close>)\<close>





section \<open>A host and sample data for running the model\<close>

text \<open>A small host on UTC: it prints whole numbers in decimal, reads no date string
  beyond the calendar dates, and its clock stands at 09:00 UTC on 3 November 2026. The
  second host is five hours west of UTC, as New York is in November; its clock stands
  at noon local time of the same day.\<close>

fun nat_digits :: "nat \<Rightarrow> nat \<Rightarrow> string" where
  "nat_digits 0 n = []"
| "nat_digits (Suc fuel) n =
     (if n < 10 then [char_of (48 + n)]
      else nat_digits fuel (n div 10) @ [char_of (48 + n mod 10)])"

definition sampleNumberToString :: "jsnum \<Rightarrow> string" where
  "sampleNumberToString n =
     (case n of
        NaN \<Rightarrow> ''NaN''
      | PosInf \<Rightarrow> ''Infinity''
      | NegInf \<Rightarrow> ''-Infinity''
      | Fin r \<Rightarrow>
          (let k = nat \<lfloor>\<bar>r\<bar>\<rfloor>
           in (if r < 0 \<and> k \<noteq> 0 then ''-'' else []) @ nat_digits (Suc k) k))"

definition sampleHost :: host where
  "sampleHost =
     \<lparr>numberToString = sampleNumberToString,
      dateToString = (\<lambda>d. case d of None \<Rightarrow> ''Invalid Date'' | Some t \<Rightarrow> ''Tue Nov 03 2026''),
      dateParseOther = (\<lambda>s. None),
      localOffsetMinutes = (\<lambda>t. 0),
      currentTime = 1793696400000\<rparr>"

definition newYorkHost :: host where
  "newYorkHost = sampleHost\<lparr>localOffsetMinutes := (\<lambda>t. - 300), currentTime := 1793725200000\<rparr>"

definition sampleField :: FormField where
  "sampleField =
     \<lparr>field_id = ''f1'', field_type = FText, label = ''Field 1'', required = False,
      defaultValue = VString [], validationRules = [], options = None,
      isDerived = False, derivedConfig = None\<rparr>"

definition mkRule :: "ValidationRuleType \<Rightarrow> jsnum option \<Rightarrow> string \<Rightarrow> ValidationRule" where
  "mkRule t v m = \<lparr>rule_type = t, rule_value = v, message = m\<rparr>"

section \<open>The sibling type-change handler\<close>

text \<open>The repository holds a second \<open>FieldConfigPanel\<close> whose \<open>handleFieldTypeChange\<close>
  treats the default value case by case and cleans the rules in the handler itself.\<close>

definition handleFieldTypeChangeFixed :: "FormField \<Rightarrow> FieldType \<Rightarrow> FieldUpdates" where
  "handleFieldTypeChangeFixed field t =
     (let u0 = noUpdates\<lparr>upd_type := Some t\<rparr>;
          u1 = (if \<not> needsOptionsType t then u0\<lparr>upd_options := Some None\<rparr>
                else u0\<lparr>upd_options :=
                          Some (Some (case options field of None \<Rightarrow> [] | Some os \<Rightarrow> os))\<rparr>);
          u2 = (if t = FNumber then u1
                else u1\<lparr>upd_isDerived := Some False, upd_derivedConfig := Some None\<rparr>);
          u3 = (if field_type field = FDate \<and> t \<noteq> FDate
                then u2\<lparr>upd_defaultValue := Some (VString [])\<rparr>
                else if field_type field = FCheckbox \<and> t \<noteq> FCheckbox
                then u2\<lparr>upd_defaultValue := Some (VString [])\<rparr>
                else if field_type field \<noteq> FCheckbox \<and> t = FCheckbox
                then u2\<lparr>upd_defaultValue := Some (VArray [])\<rparr>
                else if t = FNumber
                then (let currentValue = defaultValue field
                      in if truthy currentValue \<and> \<not> js_isNaN (toNumber currentValue)
                         then u2\<lparr>upd_defaultValue := Some (VNumber (toNumber currentValue))\<rparr>
                         else u2\<lparr>upd_defaultValue := Some (VString [])\<rparr>)
                else u2);
          currentRules = validationRules field;
          cleanedRules = getRelevantRules t currentRules
      in if length cleanedRules \<noteq> length currentRules
         then u3\<lparr>upd_validationRules := Some cleanedRules,
                 upd_required := Some (hasRequiredRule cleanedRules)\<rparr>
         else u3)"

section \<open>Notions of the specification\<close>

text \<open>A rule fails on a value when \<open>validateRule\<close> answers with a message rather than
  \<open>null\<close>.\<close>

definition ruleFails :: "host \<Rightarrow> ValidationRule \<Rightarrow> FieldValue \<Rightarrow> FieldType \<Rightarrow> bool" where
  "ruleFails h rule v fieldType = (validateRule h rule v fieldType \<noteq> None)"

text \<open>Invariant 2 of the schema: the \<open>required\<close> flag mirrors the presence of a
  \<open>notEmpty\<close> rule.\<close>

definition inSync :: "FormField \<Rightarrow> bool" where
  "inSync f = (required f = hasRequiredRule (validationRules f))"

text \<open>At most one rule of the list is a \<open>notEmpty\<close> rule.\<close>

definition atMostOneRequired :: "ValidationRule list \<Rightarrow> bool" where
  "atMostOneRequired rules = (length (filter (\<lambda>rule. rule_type rule = NotEmpty) rules) \<le> 1)"

text \<open>The fields the panel works on: in sync, with at most one \<open>notEmpty\<close> rule. A new
  field is one (not required, no rules).\<close>

definition wellFormed :: "FormField \<Rightarrow> bool" where
  "wellFormed f = (inSync f \<and> atMostOneRequired (validationRules f))"

text \<open>The rule that the required toggle inserts.\<close>

definition requiredRuleFor :: "FormField \<Rightarrow> ValidationRule" where
  "requiredRuleFor field =
     \<lparr>rule_type = NotEmpty, rule_value = None,
      message = (if field_type field = FCheckbox then ''Please select at least one option''
                 else ''This field is required'')\<rparr>"

text \<open>The birth date read from a parent's value: absent when the value is missing or
  empty, or when its text is not a date.\<close>

definition parsedBirthdate :: "host \<Rightarrow> FieldValue \<Rightarrow> jsdate" where
  "parsedBirthdate h v =
     (case toString_opt h v of
        None \<Rightarrow> None
      | Some s \<Rightarrow> if s = [] then None else newDate h s)"

text \<open>The local (month, day) of the time \<open>a\<close> comes before the local (month, day) of
  the time \<open>b\<close>.\<close>

definition monthDayPrecedes :: "host \<Rightarrow> int \<Rightarrow> int \<Rightarrow> bool" where
  "monthDayPrecedes h a b =
     (getMonth h a < getMonth h b \<or> (getMonth h a = getMonth h b \<and> getDate h a < getDate h b))"

definition wholeYearAge :: "host \<Rightarrow> int \<Rightarrow> int \<Rightarrow> int" where
  "wholeYearAge h today birth =
     max 0 (getFullYear h today - getFullYear h birth
            - (if monthDayPrecedes h today birth then 1 else 0))"




text \<open>The shape \<open>local-part @ domain . tld\<close>: three non-empty parts, none of which
  holds white space or another \<open>@\<close>.\<close>

definition emailShape :: "string \<Rightarrow> bool" where
  "emailShape s =
     (\<exists>l d t. s = l @ ''@'' @ d @ ''.'' @ t \<and> l \<noteq> [] \<and> d \<noteq> [] \<and> t \<noteq> [] \<and>
        (\<forall>c \<in> set (l @ d @ t). \<not> is_space c \<and> c \<noteq> CHR ''@''))"



text \<open>Sample data: an age computed from the parent \<open>dob\<close>.\<close>

definition sampleAgeField :: FormField where
  "sampleAgeField =
     sampleField\<lparr>field_id := ''age'', field_type := FNumber, isDerived := True,
       derivedConfig := Some \<lparr>parentFieldIds = [''dob''], formula = ''age_from_birthdate''\<rparr>\<rparr>"

text \<open>Sample fields for the editor.\<close>

definition sampleRequiredField :: FormField where
  "sampleRequiredField =
     sampleField\<lparr>required := True, validationRules :=
       [mkRule NotEmpty None ''This field is required'',
        mkRule MinLength (Some (Fin 3)) ''Minimum length required'']\<rparr>"

definition sampleTextDefaultField :: FormField where
  "sampleTextDefaultField = sampleField\<lparr>defaultValue := VString ''abc''\<rparr>"

definition sampleCheckboxField :: FormField where
  "sampleCheckboxField =
     sampleField\<lparr>field_type := FCheckbox, options := Some [''x'', ''y''],
       defaultValue := VArray [''x'']\<rparr>"

definition sampleMinLengthField :: FormField where
  "sampleMinLengthField =
     sampleField\<lparr>validationRules := [mkRule MinLength (Some (Fin 3)) ''Minimum length required'']\<rparr>"



section \<open>Validation: the first reported failure\<close>

lemma validateRule_message:
  "validateRule h rule v t = Some e \<Longrightarrow> e = message rule"
  by (auto simp: validateRule_def Let_def split: ValidationRuleType.splits if_splits)

lemma validateRules_find:
  "validateRules h rules v t =
     map_option message (find (\<lambda>rule. ruleFails h rule v t \<and> message rule \<noteq> []) rules)"
proof (induction rules)
  case Nil
  show ?case by simp
next
  case (Cons rule rest)
  show ?case
  proof (cases "validateRule h rule v t")
    case None
    then show ?thesis using Cons.IH by (simp add: ruleFails_def)
  next
    case (Some e)
    then have "e = message rule" by (rule validateRule_message)
    with Some show ?thesis using Cons.IH by (simp add: ruleFails_def)
  qed
qed

lemma validateRule_notEmpty_empty_string:
  "rule_type r = NotEmpty \<Longrightarrow> validateRule h r (VString []) t = Some (message r)"
  by (simp add: validateRule_def stringValue_def toString_opt_def trim_def)

text \<open>
  C1. \<open>validateField\<close> walks \<open>validationRules\<close> in list order and returns the message of
  the first rule that fails and whose message is not the empty string; it returns \<open>null\<close>
  when there is no such rule. It never aggregates. For the rules
  \<open>[notEmpty, minLength(3)]\<close> and the value \<open>""\<close> it returns the \<open>notEmpty\<close> message alone,
  provided that message is not empty.
\<close>

theorem validateField_first_reported_failure:
  "validateField h field v =
     map_option message
       (find (\<lambda>rule. ruleFails h rule v (field_type field) \<and> message rule \<noteq> [])
          (validationRules field))
   \<and> (rule_type r1 = NotEmpty \<and> message r1 \<noteq> [] \<and> validationRules field = [r1, r2]
        \<longrightarrow> validateField h field (VString []) = Some (message r1))"
  by (simp add: validateField_def validateRules_find ruleFails_def
        validateRule_notEmpty_empty_string)

theorem validateField_first_reported_failure_witness:
  "validateField sampleHost
     (sampleField\<lparr>validationRules :=
        [mkRule NotEmpty None ''This field is required'',
         mkRule MinLength (Some (Fin 3)) ''Minimum length required'']\<rparr>) (VString [])
   = Some ''This field is required''"
  using validateField_first_reported_failure
    [of sampleHost
      "sampleField\<lparr>validationRules :=
        [mkRule NotEmpty None ''This field is required'',
         mkRule MinLength (Some (Fin 3)) ''Minimum length required'']\<rparr>"
      "VString []" "mkRule NotEmpty None ''This field is required''"
      "mkRule MinLength (Some (Fin 3)) ''Minimum length required''", THEN conjunct2]
  by (simp add: sampleField_def mkRule_def)

text \<open>
  Without the condition on the message the statement is false: \<open>if (error)\<close> takes the
  empty message for "no error". Below, the \<open>notEmpty\<close> rule fails on \<open>""\<close> with the
  message \<open>""\<close>; \<open>validateField\<close> then answers with the message of the second rule, and
  with \<open>null\<close> when the failing rule stands alone.
\<close>

theorem validateField_empty_message_counterexample:
  "validateRule sampleHost (mkRule NotEmpty None []) (VString []) FText = Some []
   \<and> validateField sampleHost
       (sampleField\<lparr>validationRules :=
          [mkRule NotEmpty None [], mkRule MinLength (Some (Fin 3)) ''Minimum length required'']\<rparr>)
       (VString []) = Some ''Minimum length required''
   \<and> validateField sampleHost (sampleField\<lparr>validationRules := [mkRule NotEmpty None []]\<rparr>)
       (VString []) = None"
  by (simp add: validateField_def validateRule_def sampleField_def mkRule_def
        stringValue_def toString_opt_def trim_def value_or_zero_def)

text \<open>
  C10. A field whose rule list is empty validates every value: \<open>validateField\<close> returns
  \<open>null\<close>, whatever the \<open>required\<close> flag says. The flag alone never produces an error.
\<close>

theorem validateField_no_rules:
  "validationRules field = [] \<Longrightarrow> validateField h field v = None"
  by (simp add: validateField_def)

theorem validateField_no_rules_witness:
  "validationRules (sampleField\<lparr>required := True\<rparr>) = []
   \<and> required (sampleField\<lparr>required := True\<rparr>)
   \<and> validateField sampleHost (sampleField\<lparr>required := True\<rparr>) (VString []) = None"
  using validateField_no_rules [of "sampleField\<lparr>required := True\<rparr>" sampleHost "VString []"]
  by (simp add: sampleField_def)

section \<open>Validation: numeric bounds on a value that is not a number\<close>

lemma validateRule_number_bound_NaN:
  "rule_type rule = MinLength \<or> rule_type rule = MaxLength \<Longrightarrow> js_isNaN (toNumber v)
   \<Longrightarrow> validateRule h rule v FNumber = None"
  by (auto simp: validateRule_def)

lemma validateRules_skip:
  "validateRule h rule v t = None \<Longrightarrow>
   validateRules h (pre @ rule # post) v t = validateRules h (pre @ post) v t"
  by (induction pre) (auto split: option.splits)

text \<open>
  C3. On a number field, a \<open>minLength\<close> or \<open>maxLength\<close> rule is skipped when
  \<open>Number(value)\<close> is \<open>NaN\<close> (for a string value: when its text does not parse as a
  number). The rule does not fail, nothing is thrown, and \<open>validateField\<close> answers as if the
  rule were not in the list; with that rule alone it returns \<open>null\<close>.
\<close>

theorem number_bound_skipped_when_not_a_number:
  assumes "field_type field = FNumber"
    and "rule_type rule = MinLength \<or> rule_type rule = MaxLength"
    and "js_isNaN (toNumber v)"
  shows "\<not> ruleFails h rule v (field_type field)
    \<and> (validationRules field = [rule] \<longrightarrow> validateField h field v = None)
    \<and> (validationRules field = pre @ rule # post \<longrightarrow>
          validateField h field v = validateField h (field\<lparr>validationRules := pre @ post\<rparr>) v)"
proof -
  have none: "validateRule h rule v (field_type field) = None"
    using assms by (simp add: validateRule_number_bound_NaN)
  have a: "\<not> ruleFails h rule v (field_type field)"
    using none by (simp add: ruleFails_def)
  have b: "validationRules field = [rule] \<longrightarrow> validateField h field v = None"
    using none by (simp add: validateField_def)
  have c: "validationRules field = pre @ rule # post \<longrightarrow>
          validateField h field v = validateField h (field\<lparr>validationRules := pre @ post\<rparr>) v"
    using none by (simp add: validateField_def validateRules_skip)
  from a b c show ?thesis by blast
qed

theorem number_bound_skipped_when_not_a_number_witness:
  "field_type (sampleField\<lparr>field_type := FNumber, validationRules :=
       [mkRule MinLength (Some (Fin 5)) ''Value must be at least the minimum'']\<rparr>) = FNumber
   \<and> js_isNaN (toNumber (VString ''abc''))
   \<and> validateField sampleHost
       (sampleField\<lparr>field_type := FNumber, validationRules :=
          [mkRule MinLength (Some (Fin 5)) ''Value must be at least the minimum'']\<rparr>)
       (VString ''abc'') = None"
proof -
  let ?r = "mkRule MinLength (Some (Fin 5)) ''Value must be at least the minimum''"
  let ?f = "sampleField\<lparr>field_type := FNumber, validationRules := [?r]\<rparr>"
  have t: "field_type ?f = FNumber" by simp
  have r: "rule_type ?r = MinLength \<or> rule_type ?r = MaxLength" by (simp add: mkRule_def)
  have n: "js_isNaN (toNumber (VString ''abc''))"
    by (simp add: toNumber_def StringToNumber_def trim_def is_space_def radix_prefix_def
          str_decimal_def str_unsigned_decimal_def is_digit_def)
  show ?thesis
    using number_bound_skipped_when_not_a_number [OF t r n, of sampleHost "[]" "[]"] t n
    by simp
qed

text \<open>
  The specification expects an error message here instead. The value \<open>"abc"\<close> is not
  empty and does not parse as a number, the rule \<open>minLength\<close> has the bound 5, and the
  field is a number field: \<open>validateRule\<close> and \<open>validateField\<close> both answer \<open>null\<close>.
\<close>

theorem number_bound_unparsable_counterexample:
  "stringValue sampleHost (VString ''abc'') = ''abc''
   \<and> StringToNumber ''abc'' = NaN
   \<and> validateRule sampleHost (mkRule MinLength (Some (Fin 5)) ''Value must be at least the minimum'')
        (VString ''abc'') FNumber = None
   \<and> validateField sampleHost
       (sampleField\<lparr>field_type := FNumber, validationRules :=
          [mkRule MinLength (Some (Fin 5)) ''Value must be at least the minimum'']\<rparr>)
       (VString ''abc'') = None"
  by (simp add: validateField_def validateRule_def sampleField_def mkRule_def
        stringValue_def toString_opt_def toNumber_def StringToNumber_def trim_def is_space_def
        radix_prefix_def str_decimal_def str_unsigned_decimal_def is_digit_def)

section \<open>Validation: the email rule\<close>

lemma plain_run_iff:
  "plain_run s \<longleftrightarrow> s \<noteq> [] \<and> (\<forall>c \<in> set s. \<not> is_space c \<and> c \<noteq> CHR ''@'')"
  by (auto simp: plain_run_def plain_char_def list_all_iff)

lemma emailRegex_test_imp_shape:
  assumes "emailRegex_test s"
  shows "emailShape s"
proof -
  from assms obtain i j where mem: "i \<in> set [0..<length s]" "j \<in> set [0..<length s]"
    and lt: "i < j"
    and at: "s ! i = CHR ''@''" and dot: "s ! j = CHR ''.''"
    and pl: "plain_run (take i s)"
    and pd: "plain_run (take (j - Suc i) (drop (Suc i) s))"
    and pt: "plain_run (drop (Suc j) s)"
    unfolding emailRegex_test_def list_ex_iff by blast
  have ij: "i < length s" "j < length s" "i < j"
    using mem lt by simp_all
  define r where "r = drop (Suc i) s"
  define k where "k = j - Suc i"
  define l where "l = take i s"
  define d where "d = take k r"
  define t where "t = drop (Suc j) s"
  have s1: "s = l @ s ! i # r"
    unfolding l_def r_def using ij(1) by (rule id_take_nth_drop)
  have k: "k < length r" using ij by (simp add: k_def r_def)
  have rk: "r ! k = s ! j" using ij by (simp add: k_def r_def)
  have dd: "drop (Suc k) r = t" using ij by (simp add: k_def r_def t_def)
  have r1: "r = d @ r ! k # drop (Suc k) r"
    unfolding d_def using k by (rule id_take_nth_drop)
  have r2: "r = d @ ''.'' @ t" using r1 unfolding rk dd dot by simp
  have s2: "s = l @ ''@'' @ d @ ''.'' @ t"
    using s1 unfolding at r2 by simp
  have pl': "plain_run l" using pl by (simp add: l_def)
  have pd': "plain_run d" using pd by (simp add: d_def k_def r_def)
  have pt': "plain_run t" using pt by (simp add: t_def)
  have rest: "l \<noteq> [] \<and> d \<noteq> [] \<and> t \<noteq> [] \<and>
        (\<forall>c \<in> set (l @ d @ t). \<not> is_space c \<and> c \<noteq> CHR ''@'')"
    using pl' pd' pt' by (auto simp: plain_run_iff)
  show ?thesis
    unfolding emailShape_def
    by (rule exI [of _ l], rule exI [of _ d], rule exI [of _ t]) (rule conjI [OF s2 rest])
qed

lemma shape_imp_emailRegex_test:
  assumes "emailShape s"
  shows "emailRegex_test s"
proof -
  from assms obtain l d t where s: "s = l @ ''@'' @ d @ ''.'' @ t"
    and ne: "l \<noteq> []" "d \<noteq> []" "t \<noteq> []"
    and pc: "\<forall>c \<in> set (l @ d @ t). \<not> is_space c \<and> c \<noteq> CHR ''@''"
    unfolding emailShape_def by (elim exE conjE)
  let ?i = "length l"
  let ?j = "Suc (length l + length d)"
  have i: "?i < length s" and j: "?j < length s" and ij: "?i < ?j"
    using s by simp_all
  have at: "s ! ?i = CHR ''@''" using s by (simp add: nth_append)
  have dot: "s ! ?j = CHR ''.''" using s by (simp add: nth_append)
  have tl: "take ?i s = l" using s by simp
  have dr: "drop (Suc ?i) s = d @ ''.'' @ t" using s by simp
  have td: "take (?j - Suc ?i) (drop (Suc ?i) s) = d" using dr by simp
  have dt: "drop (Suc ?j) s = t" using s by simp
  have pl: "plain_run (take ?i s)" and pd: "plain_run (take (?j - Suc ?i) (drop (Suc ?i) s))"
    and pt: "plain_run (drop (Suc ?j) s)"
    using ne pc unfolding tl td dt by (auto simp: plain_run_iff)
  have mi: "?i \<in> set [0..<length s]" and mj: "?j \<in> set [0..<length s]"
    using i j by simp_all
  show ?thesis
    unfolding emailRegex_test_def list_ex_iff
    using mi mj ij at dot pl pd pt by blast
qed

lemma emailRegex_test_iff_shape: "emailRegex_test s \<longleftrightarrow> emailShape s"
  using emailRegex_test_imp_shape shape_imp_emailRegex_test by blast

text \<open>
  C9. For a field whose only rule is an email rule with a non-empty message:
  on a value whose string form is not empty, \<open>validateField\<close> returns the rule's message
  exactly when the string form is not of the shape \<open>local-part @ domain . tld\<close> (three
  non-empty parts without white space and without a further \<open>@\<close>), and \<open>null\<close> otherwise;
  a value whose string form is empty never fails the rule. Dots may follow one another.
\<close>

theorem email_rule_shape:
  assumes "rule_type rule = Email" and "validationRules field = [rule]"
    and "message rule \<noteq> []"
  shows "(stringValue h v \<noteq> [] \<longrightarrow>
           (validateField h field v = Some (message rule) \<longleftrightarrow> \<not> emailShape (stringValue h v)))
    \<and> (stringValue h v \<noteq> [] \<longrightarrow>
           (validateField h field v = None \<longleftrightarrow> emailShape (stringValue h v)))
    \<and> (stringValue h v = [] \<longrightarrow> validateField h field v = None)"
  using assms
  by (simp add: validateField_def validateRule_def emailRegex_test_iff_shape)

lemma sample_email_run:
  "validateField sampleHost
     (sampleField\<lparr>validationRules := [mkRule Email None ''Please enter a valid email address'']\<rparr>)
     (VString ''user@example.com'') = None"
  by code_simp

theorem email_rule_shape_witness:
  "validateField sampleHost
     (sampleField\<lparr>validationRules := [mkRule Email None ''Please enter a valid email address'']\<rparr>)
     (VString ''user@example.com'') = None
   \<and> emailShape ''user@example.com''
   \<and> validateField sampleHost
     (sampleField\<lparr>validationRules := [mkRule Email None ''Please enter a valid email address'']\<rparr>)
     (VString []) = None"
proof -
  let ?r = "mkRule Email None ''Please enter a valid email address''"
  let ?f = "sampleField\<lparr>validationRules := [?r]\<rparr>"
  have a: "rule_type ?r = Email" by (simp add: mkRule_def)
  have b: "validationRules ?f = [?r]" by simp
  have c: "message ?r \<noteq> []" by (simp add: mkRule_def)
  have sv: "stringValue sampleHost (VString ''user@example.com'') = ''user@example.com''"
    and sv0: "stringValue sampleHost (VString []) = []"
    by (simp_all add: stringValue_def toString_opt_def)
  show ?thesis
    using email_rule_shape [OF a b c, of sampleHost "VString ''user@example.com''"]
      email_rule_shape [OF a b c, of sampleHost "VString []"] sample_email_run
    unfolding sv sv0 by simp
qed

text \<open>
  The specification also forbids consecutive dots, and it asks for the message whatever
  the message is. \<open>a@b..c\<close> has two dots in a row and passes; a rule whose message is
  empty reports nothing on a value without \<open>@\<close>.
\<close>

theorem email_consecutive_dots_counterexample:
  "''a@b..c'' = ''a@b'' @ ''..'' @ ''c''
   \<and> validateField sampleHost
       (sampleField\<lparr>validationRules := [mkRule Email None ''Please enter a valid email address'']\<rparr>)
       (VString ''a@b..c'') = None
   \<and> validateField sampleHost (sampleField\<lparr>validationRules := [mkRule Email None []]\<rparr>)
       (VString ''no-at-sign'') = None"
  by code_simp

section \<open>Derived values: the sum\<close>

lemma ipow_power: "ipow b k = b ^ nat k"
proof (induction b k rule: ipow.induct)
  case (1 b k)
  show ?case
  proof (cases "k \<le> 0")
    case True
    then show ?thesis by (simp add: ipow.simps [of b k])
  next
    case False
    then have half: "ipow (b * b) (k div 2) = (b * b) ^ nat (k div 2)"
      using 1 by (cases "k mod 2 = 0") simp_all
    have sq: "(b * b) ^ nat (k div 2) = b ^ (2 * nat (k div 2))"
      by (simp add: power_mult power2_eq_square)
    show ?thesis
    proof (cases "k mod 2 = 0")
      case True
      then have "k = 2 * (k div 2)" by presburger
      then have "nat k = nat (2 * (k div 2))" by simp
      then have "nat k = 2 * nat (k div 2)" by (simp add: nat_mult_distrib)
      then show ?thesis using False True half sq by (simp add: ipow.simps [of b k])
    next
      case odd: False
      then have "k = 2 * (k div 2) + 1" by presburger
      then have "nat k = nat (2 * (k div 2) + 1)" by simp
      moreover have "0 \<le> k div 2" using False by simp
      ultimately have "nat k = Suc (2 * nat (k div 2))"
        by (simp add: nat_add_distrib nat_mult_distrib)
      then show ?thesis using False odd half sq by (simp add: ipow.simps [of b k])
    qed
  qed
qed

text \<open>Rounding: \<open>1 / 10\<close> is not a double; above \<open>2 ^ 53\<close> the doubles are the even
  numbers, and a tie goes to the multiple of four.\<close>

lemma toDouble_samples:
  "toDouble (1 / 10) = Fin (3602879701896397 / 36028797018963968)
   \<and> toDouble (pow2 53 + 1) = Fin (pow2 53)
   \<and> toDouble (pow2 53 + 3) = Fin (pow2 53 + 4)
   \<and> toDouble (- (pow2 53 + 3)) = Fin (- (pow2 53 + 4))"
  by code_simp

text \<open>Doubles at work: \<open>0.1 + 0.2\<close> is \<open>0.30000000000000004\<close>, which is not what \<open>0.3\<close>
  reads as; \<open>2 ^ 53 + 1\<close> reads as \<open>2 ^ 53\<close>; \<open>1e400\<close> reads as \<open>Infinity\<close>, and
  \<open>Infinity - Infinity\<close> is \<open>NaN\<close>.\<close>

lemma tenth_plus_fifth:
  "js_add (parseFloat ''0.1'') (parseFloat ''0.2'') = Fin (1351079888211149 / 4503599627370496)
   \<and> parseFloat ''0.30000000000000004'' = Fin (1351079888211149 / 4503599627370496)
   \<and> parseFloat ''0.3'' = Fin (5404319552844595 / 18014398509481984)"
  by code_simp

lemma parseFloat_two_to_53_plus_one: "parseFloat ''9007199254740993'' = Fin 9007199254740992"
  by code_simp

lemma str_unsigned_decimal_1e400: "str_unsigned_decimal ''1e400'' = Some (PosInf, [])"
  by code_simp

lemma parseFloat_1e400:
  "parseFloat ''1e400'' = PosInf \<and> parseFloat ''-1e400'' = NegInf
   \<and> js_add (parseFloat ''1e400'') (parseFloat ''-1e400'') = NaN"
  by (simp add: parseFloat_def trimStart_def is_space_def str_decimal_def
        str_unsigned_decimal_1e400)

lemma parseFloat_prefix: "parseFloat ''12abc'' = Fin 12 \<and> parseFloat ''Infinity'' = PosInf"
  by code_simp










section \<open>Derived values: the age\<close>

text \<open>The calendar: day 0 is 1 January 1970; 4 November 2008 is day 14187 and
  3 November 2026 is day 20760; going to a day number and back gives the date.\<close>

lemma calendar_samples:
  "daysFromCivil 1970 1 1 = 0
   \<and> daysFromCivil 2008 11 4 = 14187 \<and> civilFromDays 14187 = (2008, 11, 4)
   \<and> daysFromCivil 2026 11 3 = 20760 \<and> civilFromDays 20760 = (2026, 11, 3)
   \<and> civilFromDays (- 1) = (1969, 12, 31)
   \<and> daysFromCivil 2024 2 29 = 19782 \<and> civilFromDays 19783 = (2024, 3, 1)"
  by code_simp

lemma parseDateOnly_samples:
  "parseDateOnly ''2008-11-04'' = Some 1225756800000
   \<and> parseDateOnly ''2008-11-03'' = Some 1225670400000
   \<and> parseDateOnly ''2008-11-31'' = None
   \<and> parseDateOnly ''tomorrow'' = None"
  by code_simp

lemma calculateAge_spec:
  "calculateAge h pid formData =
     (case parsedBirthdate h (lookup formData pid) of
        None \<Rightarrow> 0
      | Some birth \<Rightarrow> wholeYearAge h (currentTime h) birth)"
  by (auto simp: calculateAge_def parsedBirthdate_def wholeYearAge_def monthDayPrecedes_def
        Let_def split: option.splits)

text \<open>What the function computes on every host: \<open>0\<close> for a value that is missing, empty
  or not a date; otherwise the difference of the years, less one when today's
  (month, day) comes before the birth's, and never less than \<open>0\<close>, where all six
  calendar fields are those of local time.\<close>

lemma age_in_local_time:
  assumes "isDerived field" and "derivedConfig field = Some cfg"
    and "formula cfg = ''age_from_birthdate''" and "parentFieldIds cfg = [pid]"
  shows "calculateDerivedValue h field formData =
           VNumber (Fin (of_int
             (case parsedBirthdate h (lookup formData pid) of
                None \<Rightarrow> 0
              | Some birth \<Rightarrow>
                  max 0 (getFullYear h (currentTime h) - getFullYear h birth
                         - (if monthDayPrecedes h (currentTime h) birth then 1 else 0)))))"
    and "formData pid = None \<longrightarrow> calculateDerivedValue h field formData = VNumber (Fin 0)"
proof -
  have sum_no: "formula cfg \<noteq> ''sum''" using assms(3) by simp
  have main: "calculateDerivedValue h field formData =
      VNumber (Fin (of_int (calculateAge h pid formData)))"
    using assms sum_no by (simp add: calculateDerivedValue_def firstParentKey_def)
  show a: "calculateDerivedValue h field formData =
           VNumber (Fin (of_int
             (case parsedBirthdate h (lookup formData pid) of
                None \<Rightarrow> 0
              | Some birth \<Rightarrow>
                  max 0 (getFullYear h (currentTime h) - getFullYear h birth
                         - (if monthDayPrecedes h (currentTime h) birth then 1 else 0)))))"
    unfolding main calculateAge_spec by (simp add: wholeYearAge_def split: option.splits)
  show "formData pid = None \<longrightarrow> calculateDerivedValue h field formData = VNumber (Fin 0)"
    unfolding a by (simp add: lookup_def parsedBirthdate_def toString_opt_def)
qed

lemma age_on_utc_host:
  "calculateDerivedValue sampleHost sampleAgeField [''dob'' \<mapsto> VString ''2008-11-03'']
     = VNumber (Fin 18)
   \<and> calculateDerivedValue sampleHost sampleAgeField [''dob'' \<mapsto> VString ''2008-11-04'']
     = VNumber (Fin 17)
   \<and> calculateDerivedValue sampleHost sampleAgeField [''dob'' \<mapsto> VString ''2030-01-01'']
     = VNumber (Fin 0)
   \<and> calculateDerivedValue sampleHost sampleAgeField [''dob'' \<mapsto> VString ''tomorrow'']
     = VNumber (Fin 0)
   \<and> calculateDerivedValue sampleHost sampleAgeField Map.empty = VNumber (Fin 0)"
  by code_simp

text \<open>
  C7. For the formula \<open>age_from_birthdate\<close> the age is the current year minus the birth
  year, less one exactly when today's (month, day) comes before the birth's, and at
  least \<open>0\<close>; a birth date one day short of eighteen years ago gives \<open>17\<close>. The code
  reads the birth date \<open>2008-11-04\<close>, as a date input yields it, as midnight UTC, and
  then takes year, month and day of that instant in local time. At noon of
  3 November 2026 on a host five hours west of UTC, today is (2026, November, 3), the
  birth date is read as (2008, November, 3), the evening before, and the age returned
  is \<open>18\<close>: the anniversary is tomorrow, and the age is \<open>17\<close>. The same input on a host
  on UTC gives \<open>17\<close>.
\<close>

theorem age_a_day_early_west_of_utc:
  "newDate newYorkHost ''2008-11-04'' = Some 1225756800000
   \<and> civilFromDays (1225756800000 div 86400000) = (2008, 11, 4)
   \<and> getFullYear newYorkHost (currentTime newYorkHost) = 2026
   \<and> getMonth newYorkHost (currentTime newYorkHost) = 10
   \<and> getDate newYorkHost (currentTime newYorkHost) = 3
   \<and> getFullYear newYorkHost 1225756800000 = 2008
   \<and> getMonth newYorkHost 1225756800000 = 10
   \<and> getDate newYorkHost 1225756800000 = 3
   \<and> calculateDerivedValue newYorkHost sampleAgeField [''dob'' \<mapsto> VString ''2008-11-04'']
       = VNumber (Fin 18)
   \<and> calculateDerivedValue sampleHost sampleAgeField [''dob'' \<mapsto> VString ''2008-11-04'']
       = VNumber (Fin 17)"
  by code_simp

section \<open>The required flag and the \<open>notEmpty\<close> rule\<close>

lemma hasRequiredRule_filter:
  "\<not> hasRequiredRule (filter (\<lambda>rule. rule_type rule \<noteq> NotEmpty) rules)"
  by (simp add: hasRequiredRule_def list_ex_iff)

lemma toggle_on:
  "applyUpdates f (handleRequiredToggle f True) =
     f\<lparr>required := True,
       validationRules := (if hasRequiredRule (validationRules f) then validationRules f
                           else requiredRuleFor f # validationRules f)\<rparr>"
  by (simp add: applyUpdates_def handleRequiredToggle_def noUpdates_def requiredRuleFor_def)

lemma toggle_off:
  "applyUpdates f (handleRequiredToggle f False) =
     f\<lparr>required := False,
       validationRules := filter (\<lambda>rule. rule_type rule \<noteq> NotEmpty) (validationRules f)\<rparr>"
  by (simp add: applyUpdates_def handleRequiredToggle_def noUpdates_def)

lemma rules_change:
  "applyUpdates f (handleValidationRulesChange rs) =
     f\<lparr>required := hasRequiredRule rs, validationRules := rs\<rparr>"
  by (simp add: applyUpdates_def handleValidationRulesChange_def noUpdates_def)

lemma typeChange_untouched:
  "required (applyUpdates f (handleFieldTypeChange f t)) = required f \<and>
   validationRules (applyUpdates f (handleFieldTypeChange f t)) = validationRules f \<and>
   field_type (applyUpdates f (handleFieldTypeChange f t)) = t"
  by (simp add: applyUpdates_def handleFieldTypeChange_def noUpdates_def Let_def)

lemma typeChange_keeps_sync:
  "inSync f \<Longrightarrow> inSync (typeChangeThenCleanup f t)"
  by (cases "cleanupRulesEffect (applyUpdates f (handleFieldTypeChange f t))")
     (auto simp: typeChangeThenCleanup_def cleanupRulesEffect_def Let_def rules_change
        inSync_def typeChange_untouched split: if_splits)

lemma deleteRule_result:
  assumes "index < length (validationRules f)"
  shows "\<exists>us. deleteRule f index = Some us \<and>
           dispatchAll f us =
             f\<lparr>required := hasRequiredRule (removeAt index (validationRules f)),
               validationRules := removeAt index (validationRules f)\<rparr>"
  using assms
  by (simp add: deleteRule_def dispatchAll_def Let_def toggle_off rules_change)

subsection \<open>Lists with at most one \<open>notEmpty\<close> rule\<close>

lemma hasRequiredRule_count:
  "hasRequiredRule rs = (0 < length (filter (\<lambda>rule. rule_type rule = NotEmpty) rs))"
  by (simp add: hasRequiredRule_def list_ex_iff filter_empty_conv)

lemma enumerate_above:
  "n < m \<Longrightarrow> map snd (filter (\<lambda>(j, x). j \<noteq> n) (enumerate m xs)) = xs"
  by (induction xs arbitrary: m) simp_all

lemma enumerate_without:
  "i < length xs \<Longrightarrow>
     map snd (filter (\<lambda>(j, x). j \<noteq> n + i) (enumerate n xs)) = take i xs @ drop (Suc i) xs"
proof (induction xs arbitrary: n i)
  case Nil
  then show ?case by simp
next
  case (Cons x xs)
  show ?case
  proof (cases i)
    case 0
    then show ?thesis by (simp add: enumerate_above)
  next
    case (Suc k)
    then have "k < length xs" using Cons.prems by simp
    from Cons.IH [OF this, of "Suc n"] show ?thesis using Suc by simp
  qed
qed

lemma removeAt_take_drop:
  "i < length xs \<Longrightarrow> removeAt i xs = take i xs @ drop (Suc i) xs"
  using enumerate_without [of i xs 0] by (simp add: removeAt_def)

lemma amo_replace:
  "atMostOneRequired (A @ y # B) \<Longrightarrow>
   (rule_type x = NotEmpty \<longrightarrow> rule_type y = NotEmpty \<or> \<not> hasRequiredRule (A @ y # B)) \<Longrightarrow>
   atMostOneRequired (A @ x # B)"
  by (auto simp: atMostOneRequired_def hasRequiredRule_count split: if_splits)

lemma amo_drop:
  "atMostOneRequired (A @ y # B) \<Longrightarrow> atMostOneRequired (A @ B)"
  by (auto simp: atMostOneRequired_def split: if_splits)

lemma amo_drop_required:
  "atMostOneRequired (A @ y # B) \<Longrightarrow> rule_type y = NotEmpty \<Longrightarrow> \<not> hasRequiredRule (A @ B)"
  by (auto simp: atMostOneRequired_def hasRequiredRule_count split: if_splits)

lemma amo_update:
  assumes "atMostOneRequired rs" and "i < length rs"
    and "rule_type x = NotEmpty \<longrightarrow> rule_type (rs ! i) = NotEmpty \<or> \<not> hasRequiredRule rs"
  shows "atMostOneRequired (rs[i := x])"
proof -
  have e1: "take i rs @ rs ! i # drop (Suc i) rs = rs"
    using assms(2) by (simp add: id_take_nth_drop [symmetric])
  have e2: "rs[i := x] = take i rs @ x # drop (Suc i) rs"
    using assms(2) by (rule upd_conv_take_nth_drop)
  show ?thesis
    unfolding e2
    by (rule amo_replace [of "take i rs" "rs ! i" "drop (Suc i) rs" x]) (simp_all add: e1 assms)
qed

lemma amo_removeAt:
  assumes "atMostOneRequired rs" and "i < length rs"
  shows "atMostOneRequired (removeAt i rs)"
    and "rule_type (rs ! i) = NotEmpty \<Longrightarrow> \<not> hasRequiredRule (removeAt i rs)"
proof -
  have e1: "take i rs @ rs ! i # drop (Suc i) rs = rs"
    using assms(2) by (simp add: id_take_nth_drop [symmetric])
  have a: "atMostOneRequired (take i rs @ rs ! i # drop (Suc i) rs)"
    using assms(1) by (simp add: e1)
  show "atMostOneRequired (removeAt i rs)"
    unfolding removeAt_take_drop [OF assms(2)] using a by (rule amo_drop)
  show "rule_type (rs ! i) = NotEmpty \<Longrightarrow> \<not> hasRequiredRule (removeAt i rs)"
    unfolding removeAt_take_drop [OF assms(2)] using a by (rule amo_drop_required)
qed

lemma amo_filter: "atMostOneRequired rs \<Longrightarrow> atMostOneRequired (filter Q rs)"
proof -
  have "length (filter (\<lambda>rule. rule_type rule = NotEmpty) (filter Q rs))
        \<le> length (filter (\<lambda>rule. rule_type rule = NotEmpty) rs)"
    by (induction rs) auto
  then show "atMostOneRequired rs \<Longrightarrow> atMostOneRequired (filter Q rs)"
    by (simp add: atMostOneRequired_def)
qed

lemma amo_append:
  "atMostOneRequired rs \<Longrightarrow> (rule_type x = NotEmpty \<longrightarrow> \<not> hasRequiredRule rs) \<Longrightarrow>
   atMostOneRequired (rs @ [x])"
  by (auto simp: atMostOneRequired_def hasRequiredRule_count)

lemma amo_cons:
  "\<not> hasRequiredRule rs \<Longrightarrow> atMostOneRequired (x # rs)"
  by (auto simp: atMostOneRequired_def hasRequiredRule_count)

lemma not_used_not_required:
  "NotEmpty \<notin> set (map rule_type rs) \<Longrightarrow> \<not> hasRequiredRule rs"
  by (auto simp: hasRequiredRule_def list_ex_iff intro: rev_image_eqI)

subsection \<open>Every action of the editor keeps a field well formed\<close>

lemma wellFormed_rules_change:
  "atMostOneRequired rs \<Longrightarrow> wellFormed (applyUpdates f (handleValidationRulesChange rs))"
  by (simp add: wellFormed_def rules_change inSync_def)

lemma wellFormed_toggle:
  "atMostOneRequired (validationRules f) \<Longrightarrow>
     wellFormed (applyUpdates f (handleRequiredToggle f checked))"
proof (cases checked)
  case True
  assume "atMostOneRequired (validationRules f)"
  then show ?thesis
    using True
    by (simp add: toggle_on wellFormed_def inSync_def amo_cons)
       (simp add: hasRequiredRule_def requiredRuleFor_def)
next
  case False
  have "atMostOneRequired (filter (\<lambda>rule. rule_type rule \<noteq> NotEmpty) (validationRules f))"
    by (simp add: atMostOneRequired_def)
  then show ?thesis
    using False by (simp add: toggle_off wellFormed_def inSync_def hasRequiredRule_filter)
qed

lemma wellFormed_typeChange:
  "wellFormed f \<Longrightarrow> wellFormed (applyUpdates f (handleFieldTypeChange f t))"
  by (simp add: wellFormed_def inSync_def typeChange_untouched)

lemma availableForAdd_unused:
  "t \<in> set (availableForAdd f) \<Longrightarrow> t \<notin> set (map rule_type (validationRules f))"
  by (simp add: availableForAdd_def)

lemma wellFormed_addRule:
  assumes "atMostOneRequired (validationRules f)"
  shows "addRule f = [] \<or>
         (\<exists>rs. addRule f = [handleValidationRulesChange rs] \<and> atMostOneRequired rs)"
proof (cases "availableForAdd f")
  case Nil
  then show ?thesis by (simp add: addRule_def)
next
  case (Cons t ts)
  then have "t \<in> set (availableForAdd f)" by simp
  then have unused: "t \<notin> set (map rule_type (validationRules f))"
    by (rule availableForAdd_unused)
  define r where "r = \<lparr>rule_type = t,
                  rule_value = (if t = MinLength \<or> t = MaxLength then Some (Fin 1) else None),
                  message = getDefaultMessage (field_type f) t\<rparr>"
  have rt: "rule_type r = t" by (simp add: r_def)
  have "t = NotEmpty \<longrightarrow> \<not> hasRequiredRule (validationRules f)"
    using unused not_used_not_required by blast
  then have a: "atMostOneRequired (validationRules f @ [r])"
    using assms rt by (simp add: amo_append)
  have e: "addRule f = [handleValidationRulesChange (validationRules f @ [r])]"
    using Cons by (simp add: addRule_def r_def)
  show ?thesis using a e by blast
qed

lemma wellFormed_updateRule:
  assumes "atMostOneRequired (validationRules f)" and "index < length (validationRules f)"
    and "rule_type (applyPatch (validationRules f ! index) p) = NotEmpty \<longrightarrow>
           rule_type (validationRules f ! index) = NotEmpty \<or>
           \<not> hasRequiredRule (validationRules f)"
  shows "\<exists>rs. updateRule f index p = Some [handleValidationRulesChange rs] \<and>
              atMostOneRequired rs"
proof -
  have "atMostOneRequired ((validationRules f)[index := applyPatch (validationRules f ! index) p])"
    using assms by (rule amo_update)
  moreover have "updateRule f index p =
      Some [handleValidationRulesChange
              ((validationRules f)[index := applyPatch (validationRules f ! index) p])]"
    using assms(2) by (simp add: updateRule_def Let_def)
  ultimately show ?thesis by blast
qed

lemma dispatched_wellFormed:
  assumes "wellFormed f"
    and "us = [] \<or> (\<exists>rs. us = [handleValidationRulesChange rs] \<and> atMostOneRequired rs)"
  shows "wellFormed (dispatchAll f us)"
  using assms by (auto simp: dispatchAll_def wellFormed_rules_change)

lemma event_wellFormed:
  assumes wf: "wellFormed f"
  shows "wellFormed (dispatchAll f (editorEvent f a))"
proof -
  have amo: "atMostOneRequired (validationRules f)" using wf by (simp add: wellFormed_def)
  show ?thesis
  proof (cases a)
    case (ToggleRequired checked)
    then show ?thesis
      using wellFormed_toggle [OF amo, of checked] by (simp add: editorEvent_def Let_def dispatchAll_def)
  next
    case (ChangeFieldType t)
    then show ?thesis
      using wellFormed_typeChange [OF wf, of t] by (simp add: editorEvent_def Let_def dispatchAll_def)
  next
    case ClickAddRule
    then show ?thesis
      using dispatched_wellFormed [OF wf wellFormed_addRule [OF amo]]
      by (simp add: editorEvent_def Let_def)
  next
    case (SelectRuleType index t)
    show ?thesis
    proof (cases "index < length (validationRules f) \<and> t \<in> set (availableForAdd f)")
      case False
      then show ?thesis
        using wf SelectRuleType by (auto simp: editorEvent_def Let_def dispatchAll_def)
    next
      case True
      then have "t = NotEmpty \<longrightarrow> \<not> hasRequiredRule (validationRules f)"
        using availableForAdd_unused not_used_not_required by blast
      then have "\<exists>rs. handleRuleTypeChange f index t = Some [handleValidationRulesChange rs] \<and>
                      atMostOneRequired rs"
        unfolding handleRuleTypeChange_def
        using True by (intro wellFormed_updateRule [OF amo]) (simp_all add: applyPatch_def)
      then have "\<exists>rs. editorEvent f a = [handleValidationRulesChange rs] \<and> atMostOneRequired rs"
        using True SelectRuleType by (auto simp: editorEvent_def Let_def dispatched_def)
      then show ?thesis using dispatched_wellFormed [OF wf] by blast
    qed
  next
    case (TypeRuleValue index v)
    show ?thesis
    proof (cases "index < length (validationRules f)")
      case False
      then show ?thesis
        using wf TypeRuleValue by (auto simp: editorEvent_def Let_def dispatchAll_def)
    next
      case True
      have keep: "\<And>n. \<exists>rs. updateRule f index (noPatch\<lparr>patch_value := Some (Some n)\<rparr>) =
                          Some [handleValidationRulesChange rs] \<and> atMostOneRequired rs"
        using True by (intro wellFormed_updateRule [OF amo]) (simp_all add: applyPatch_def noPatch_def)
      have "handleValueChange f index v = Some [] \<or>
            (\<exists>rs. handleValueChange f index v = Some [handleValidationRulesChange rs] \<and>
                  atMostOneRequired rs)"
        using keep by (simp add: handleValueChange_def Let_def)
      then have "editorEvent f a = [] \<or>
            (\<exists>rs. editorEvent f a = [handleValidationRulesChange rs] \<and> atMostOneRequired rs)"
        using TypeRuleValue by (auto simp: editorEvent_def Let_def dispatched_def)
      then show ?thesis by (rule dispatched_wellFormed [OF wf])
    qed
  next
    case (TypeRuleMessage index m)
    show ?thesis
    proof (cases "index < length (validationRules f)")
      case False
      then show ?thesis
        using wf TypeRuleMessage by (auto simp: editorEvent_def Let_def dispatchAll_def)
    next
      case True
      have "\<exists>rs. handleMessageChange f index m = Some [handleValidationRulesChange rs] \<and>
                 atMostOneRequired rs"
        unfolding handleMessageChange_def
        using True by (intro wellFormed_updateRule [OF amo]) (simp_all add: applyPatch_def noPatch_def)
      then have "\<exists>rs. editorEvent f a = [handleValidationRulesChange rs] \<and> atMostOneRequired rs"
        using True TypeRuleMessage by (auto simp: editorEvent_def Let_def dispatched_def)
      then show ?thesis using dispatched_wellFormed [OF wf] by blast
    qed
  next
    case (ClickDelete index)
    show ?thesis
    proof (cases "index < length (validationRules f) \<and> \<not> deleteDisabled f index")
      case False
      then show ?thesis
        using wf ClickDelete by (auto simp: editorEvent_def Let_def dispatchAll_def)
    next
      case True
      then have i: "index < length (validationRules f)" by simp
      from deleteRule_result [OF i] obtain us where us: "deleteRule f index = Some us"
        and res: "dispatchAll f us =
             f\<lparr>required := hasRequiredRule (removeAt index (validationRules f)),
               validationRules := removeAt index (validationRules f)\<rparr>"
        by (elim exE conjE)
      have ev: "editorEvent f a = us"
        using True ClickDelete us by (simp add: editorEvent_def Let_def dispatched_def)
      show ?thesis
        unfolding ev res using amo_removeAt(1) [OF amo i]
        by (simp add: wellFormed_def inSync_def)
    qed
  qed
qed

lemma getRelevantRules_idem:
  "getRelevantRules t (getRelevantRules t rs) = getRelevantRules t rs"
  by (simp add: getRelevantRules_def)

lemma autoAdd_in_sync: "inSync f \<Longrightarrow> autoAddRequiredEffect f = None"
  by (auto simp: autoAddRequiredEffect_def inSync_def Let_def)

lemma runEffects_wellFormed:
  assumes wf: "wellFormed f"
  shows "wellFormed (runEffects f) \<and> effectUpdates (runEffects f) = []"
proof -
  have sync: "inSync f" and amo: "atMostOneRequired (validationRules f)"
    using wf by (simp_all add: wellFormed_def)
  have none: "autoAddRequiredEffect f = None" using sync by (rule autoAdd_in_sync)
  show ?thesis
  proof (cases "cleanupRulesEffect f")
    case None
    then have "runEffects f = f" by (simp add: runEffects_def effectUpdates_def none dispatchAll_def)
    then show ?thesis using wf None none by (simp add: effectUpdates_def)
  next
    case (Some u)
    then have u: "u = handleValidationRulesChange (getRelevantRules (field_type f) (validationRules f))"
      by (simp add: cleanupRulesEffect_def Let_def split: if_splits)
    have run: "runEffects f =
        applyUpdates f (handleValidationRulesChange (getRelevantRules (field_type f) (validationRules f)))"
      using Some u by (simp add: runEffects_def effectUpdates_def none dispatchAll_def)
    have amo': "atMostOneRequired (getRelevantRules (field_type f) (validationRules f))"
      unfolding getRelevantRules_def using amo by (rule amo_filter)
    have wf': "wellFormed (runEffects f)"
      unfolding run using amo' by (rule wellFormed_rules_change)
    then have a: "autoAddRequiredEffect (runEffects f) = None"
      by (simp add: wellFormed_def autoAdd_in_sync)
    have c: "cleanupRulesEffect (runEffects f) = None"
      unfolding run by (simp add: cleanupRulesEffect_def rules_change getRelevantRules_idem)
    show ?thesis using wf' a c by (simp add: effectUpdates_def)
  qed
qed

lemma typeChange_step:
  "inSync f \<Longrightarrow> editorStep f (ChangeFieldType t) = typeChangeThenCleanup f t"
proof -
  assume "inSync f"
  then have "inSync (applyUpdates f (handleFieldTypeChange f t))"
    by (simp add: inSync_def typeChange_untouched)
  then have "autoAddRequiredEffect (applyUpdates f (handleFieldTypeChange f t)) = None"
    by (rule autoAdd_in_sync)
  then show ?thesis
    by (simp add: editorStep_def editorEvent_def runEffects_def effectUpdates_def
          typeChangeThenCleanup_def dispatchAll_def split: option.splits)
qed

text \<open>
  C2. The \<open>required\<close> flag and the presence of a \<open>notEmpty\<close> rule stay in sync on
  every edit path of the panel. Switching \<open>required\<close> on puts a \<open>notEmpty\<close> rule at the head
  of the list when there is none; switching it off removes every \<open>notEmpty\<close> rule; any
  change of the rule list recomputes the flag from the list; a type change followed by the
  rule clean-up keeps a field in sync. Every action of the editor, with the effects that
  follow it, takes a field that is in sync and has at most one \<open>notEmpty\<close> rule to such
  a field, on which no effect fires any more. \<open>deleteRule\<close> on a \<open>notEmpty\<close> rule removes
  the rule and sets \<open>required\<close> to whether a \<open>notEmpty\<close> rule remains, which is \<open>false\<close>
  when the list had at most one. The delete button of a \<open>notEmpty\<close> rule is disabled
  while the field is required, so on a field in sync the rule goes away through the
  required toggle.
\<close>

theorem required_flag_in_sync:
  "(required (applyUpdates f (handleRequiredToggle f True))
      \<and> inSync (applyUpdates f (handleRequiredToggle f True))
      \<and> validationRules (applyUpdates f (handleRequiredToggle f True)) =
          (if hasRequiredRule (validationRules f) then validationRules f
           else requiredRuleFor f # validationRules f))
   \<and> (\<not> required (applyUpdates f (handleRequiredToggle f False))
      \<and> inSync (applyUpdates f (handleRequiredToggle f False))
      \<and> validationRules (applyUpdates f (handleRequiredToggle f False)) =
          filter (\<lambda>rule. rule_type rule \<noteq> NotEmpty) (validationRules f))
   \<and> inSync (applyUpdates f (handleValidationRulesChange rs))
   \<and> (inSync f \<longrightarrow> inSync (typeChangeThenCleanup f t)
                     \<and> editorStep f (ChangeFieldType t) = typeChangeThenCleanup f t)
   \<and> (wellFormed f \<longrightarrow> wellFormed (editorStep f a) \<and> effectUpdates (editorStep f a) = [])
   \<and> (index < length (validationRules f) \<longrightarrow>
        (\<exists>us. deleteRule f index = Some us
           \<and> validationRules (dispatchAll f us) = removeAt index (validationRules f)
           \<and> inSync (dispatchAll f us)
           \<and> required (dispatchAll f us) = hasRequiredRule (removeAt index (validationRules f))
           \<and> (rule_type (validationRules f ! index) = NotEmpty
                \<and> atMostOneRequired (validationRules f)
               \<longrightarrow> \<not> required (dispatchAll f us))))
   \<and> (index < length (validationRules f) \<and> inSync f
        \<and> rule_type (validationRules f ! index) = NotEmpty
       \<longrightarrow> deleteDisabled f index \<and> editorEvent f (ClickDelete index) = [])"
proof -
  have tch: "inSync f \<longrightarrow> inSync (typeChangeThenCleanup f t)
                     \<and> editorStep f (ChangeFieldType t) = typeChangeThenCleanup f t"
    by (simp add: typeChange_keeps_sync typeChange_step)
  have on: "required (applyUpdates f (handleRequiredToggle f True))
      \<and> inSync (applyUpdates f (handleRequiredToggle f True))
      \<and> validationRules (applyUpdates f (handleRequiredToggle f True)) =
          (if hasRequiredRule (validationRules f) then validationRules f
           else requiredRuleFor f # validationRules f)"
    by (simp add: toggle_on inSync_def hasRequiredRule_def requiredRuleFor_def)
  have off: "\<not> required (applyUpdates f (handleRequiredToggle f False))
      \<and> inSync (applyUpdates f (handleRequiredToggle f False))
      \<and> validationRules (applyUpdates f (handleRequiredToggle f False)) =
          filter (\<lambda>rule. rule_type rule \<noteq> NotEmpty) (validationRules f)"
    by (simp add: toggle_off inSync_def hasRequiredRule_filter)
  have chg: "inSync (applyUpdates f (handleValidationRulesChange rs))"
    by (simp add: rules_change inSync_def)
  have step: "wellFormed f \<longrightarrow>
      wellFormed (editorStep f a) \<and> effectUpdates (editorStep f a) = []"
    unfolding editorStep_def
    using runEffects_wellFormed [OF event_wellFormed, of f a] by blast
  have del: "index < length (validationRules f) \<longrightarrow>
        (\<exists>us. deleteRule f index = Some us
           \<and> validationRules (dispatchAll f us) = removeAt index (validationRules f)
           \<and> inSync (dispatchAll f us)
           \<and> required (dispatchAll f us) = hasRequiredRule (removeAt index (validationRules f))
           \<and> (rule_type (validationRules f ! index) = NotEmpty
                \<and> atMostOneRequired (validationRules f)
               \<longrightarrow> \<not> required (dispatchAll f us)))"
  proof
    assume i: "index < length (validationRules f)"
    then obtain us where us: "deleteRule f index = Some us"
      and res: "dispatchAll f us =
             f\<lparr>required := hasRequiredRule (removeAt index (validationRules f)),
               validationRules := removeAt index (validationRules f)\<rparr>"
      using deleteRule_result by blast
    have last: "rule_type (validationRules f ! index) = NotEmpty
                \<and> atMostOneRequired (validationRules f)
               \<longrightarrow> \<not> hasRequiredRule (removeAt index (validationRules f))"
      using amo_removeAt(2) [OF _ i] by blast
    show "\<exists>us. deleteRule f index = Some us
           \<and> validationRules (dispatchAll f us) = removeAt index (validationRules f)
           \<and> inSync (dispatchAll f us)
           \<and> required (dispatchAll f us) = hasRequiredRule (removeAt index (validationRules f))
           \<and> (rule_type (validationRules f ! index) = NotEmpty
                \<and> atMostOneRequired (validationRules f)
               \<longrightarrow> \<not> required (dispatchAll f us))"
      using last by (intro exI [of _ us]) (simp add: us res inSync_def)
  qed
  have guard: "index < length (validationRules f) \<and> inSync f
        \<and> rule_type (validationRules f ! index) = NotEmpty
       \<longrightarrow> deleteDisabled f index \<and> editorEvent f (ClickDelete index) = []"
    by (auto simp: deleteDisabled_def editorEvent_def inSync_def hasRequiredRule_def
          list_ex_iff Let_def)
  from on off chg tch step del guard show ?thesis by blast
qed

lemma sample_delete_run:
  "deleteRule sampleRequiredField 0 =
     Some [handleRequiredToggle sampleRequiredField False,
           handleValidationRulesChange [mkRule MinLength (Some (Fin 3)) ''Minimum length required'']]"
  by (simp add: deleteRule_def sampleRequiredField_def mkRule_def removeAt_def enumerate_eq_zip)

theorem required_flag_in_sync_witness:
  "wellFormed sampleRequiredField
   \<and> 0 < length (validationRules sampleRequiredField)
   \<and> rule_type (validationRules sampleRequiredField ! 0) = NotEmpty
   \<and> inSync (typeChangeThenCleanup sampleRequiredField FSelect)
   \<and> wellFormed (editorStep sampleRequiredField (ToggleRequired False))
   \<and> \<not> required (dispatchAll sampleRequiredField
          [handleRequiredToggle sampleRequiredField False,
           handleValidationRulesChange [mkRule MinLength (Some (Fin 3)) ''Minimum length required'']])
   \<and> deleteDisabled sampleRequiredField 0"
proof -
  have wf: "wellFormed sampleRequiredField"
    by (simp add: wellFormed_def inSync_def atMostOneRequired_def hasRequiredRule_def
          sampleRequiredField_def mkRule_def)
  then have sync: "inSync sampleRequiredField" and
    amo: "atMostOneRequired (validationRules sampleRequiredField)"
    by (simp_all add: wellFormed_def)
  have l: "0 < length (validationRules sampleRequiredField)"
    by (simp add: sampleRequiredField_def)
  have t: "rule_type (validationRules sampleRequiredField ! 0) = NotEmpty"
    by (simp add: sampleRequiredField_def mkRule_def)
  note inst = required_flag_in_sync [of sampleRequiredField "[]" FSelect "ToggleRequired False" 0]
  have c4: "inSync (typeChangeThenCleanup sampleRequiredField FSelect)"
    using inst [THEN conjunct2, THEN conjunct2, THEN conjunct2, THEN conjunct1] sync by blast
  have c5: "wellFormed (editorStep sampleRequiredField (ToggleRequired False))"
    using inst [THEN conjunct2, THEN conjunct2, THEN conjunct2, THEN conjunct2, THEN conjunct1] wf
    by blast
  have c6: "\<not> required (dispatchAll sampleRequiredField
          [handleRequiredToggle sampleRequiredField False,
           handleValidationRulesChange [mkRule MinLength (Some (Fin 3)) ''Minimum length required'']])"
    using inst [THEN conjunct2, THEN conjunct2, THEN conjunct2, THEN conjunct2, THEN conjunct2,
        THEN conjunct1] l t amo
    by (auto simp: sample_delete_run)
  have c7: "deleteDisabled sampleRequiredField 0"
    using inst [THEN conjunct2, THEN conjunct2, THEN conjunct2, THEN conjunct2, THEN conjunct2,
        THEN conjunct2] l t sync
    by blast
  from wf l t c4 c5 c6 c7 show ?thesis by blast
qed

section \<open>Type changes\<close>

text \<open>
  C4. Changing the type into \<open>checkbox\<close> should leave an empty list as default value,
  and changing it out of \<open>checkbox\<close> an empty scalar. The handler of the panel writes the
  empty string in both directions: a text field with default \<open>"abc"\<close> turned into a
  checkbox gets \<open>""\<close>, where the sibling handler gives \<open>[]\<close>. Out of \<open>checkbox\<close> the
  default becomes \<open>""\<close>, as the specification says.
\<close>

theorem type_change_into_checkbox_default:
  "defaultValue (applyUpdates sampleTextDefaultField
      (handleFieldTypeChange sampleTextDefaultField FCheckbox)) = VString []
   \<and> defaultValue (applyUpdates sampleTextDefaultField
      (handleFieldTypeChangeFixed sampleTextDefaultField FCheckbox)) = VArray []
   \<and> defaultValue (applyUpdates sampleCheckboxField
      (handleFieldTypeChange sampleCheckboxField FText)) = VString []"
  by (simp add: sampleTextDefaultField_def sampleCheckboxField_def sampleField_def
        applyUpdates_def handleFieldTypeChange_def handleFieldTypeChangeFixed_def
        noUpdates_def needsOptionsType_def getRelevantRules_def)

text \<open>
  C6. After a type change the rule list should hold only rule types that
  \<open>getAvailableValidationRules\<close> allows for the new type. The clean-up drops \<open>minLength\<close> and
  \<open>maxLength\<close> for \<open>select\<close>, \<open>radio\<close> and \<open>checkbox\<close> but not for \<open>date\<close>: a text field
  with a \<open>minLength\<close> rule turned into a date field keeps the rule, although only
  \<open>notEmpty\<close> is available on dates; turned into a select field it loses the rule.
\<close>

theorem type_change_to_date_keeps_length_rule:
  "validationRules (typeChangeThenCleanup sampleMinLengthField FDate) =
     [mkRule MinLength (Some (Fin 3)) ''Minimum length required'']
   \<and> field_type (typeChangeThenCleanup sampleMinLengthField FDate) = FDate
   \<and> getAvailableValidationRules FDate = [NotEmpty]
   \<and> validationRules (typeChangeThenCleanup sampleMinLengthField FSelect) = []"
  by (simp add: sampleMinLengthField_def sampleField_def mkRule_def typeChangeThenCleanup_def
        cleanupRulesEffect_def getRelevantRules_def applyUpdates_def handleFieldTypeChange_def
        handleValidationRulesChange_def hasRequiredRule_def
        noUpdates_def needsOptionsType_def getAvailableValidationRules_def)

section \<open>Derived fields after a field is deleted\<close>

subsection \<open>Updating by id when ids are unique\<close>






















end
